theory Spec2Isabelle
  imports Complex_Main "HOL-Library.Sublist" "HOL-Library.AList"
begin

section \<open>JavaScript values used by the provider subsystem\<close>

text \<open>
  The configuration object handed to every provider maps string keys to string values
  (environment variables, or string defaults). A key that is absent reads as
  \<^verbatim>\<open>undefined\<close>. A value is truthy if it is present and not the empty string.
  The Vertex provider also reads \<^verbatim>\<open>process.env\<close>, so both maps travel together.
\<close>

type_synonym config = "string \<rightharpoonup> string"

record env =
  cfg :: config
  process_env :: config

definition truthy :: "string option \<Rightarrow> bool" where
  "truthy v = (case v of None \<Rightarrow> False | Some s \<Rightarrow> s \<noteq> [])"

text \<open>\<^verbatim>\<open>a || d\<close> for an optional string \<open>a\<close> and a string literal \<open>d\<close>.\<close>

definition orDefault :: "string option \<Rightarrow> string \<Rightarrow> string" where
  "orDefault a d = (case a of None \<Rightarrow> d | Some s \<Rightarrow> if s = [] then d else s)"

text \<open>\<^verbatim>\<open>a || b\<close> for two optional strings: the second operand is returned as it is.\<close>

definition orElse :: "string option \<Rightarrow> string option \<Rightarrow> string option" where
  "orElse a b = (if truthy a then a else b)"

text \<open>
  Numeric options are JavaScript numbers; \<open>None\<close> is \<^verbatim>\<open>undefined\<close>. The value
  \<open>0\<close> is falsy, so \<^verbatim>\<open>x || d\<close> yields \<open>d\<close> for it.
\<close>

definition numOr :: "rat option \<Rightarrow> rat \<Rightarrow> rat" where
  "numOr x d = (case x of None \<Rightarrow> d | Some r \<Rightarrow> if r = 0 then d else r)"

datatype jsval = JNum rat | JStr string

text \<open>\<^verbatim>\<open>x || c || d\<close> with \<open>x\<close> a numeric option, \<open>c\<close> a configuration string, \<open>d\<close> a literal.\<close>

definition numOrCfg :: "rat option \<Rightarrow> string option \<Rightarrow> rat \<Rightarrow> jsval" where
  "numOrCfg x c d =
     (case x of
        None \<Rightarrow> (if truthy c then JStr (orDefault c []) else JNum d)
      | Some r \<Rightarrow> if r = 0 then (if truthy c then JStr (orDefault c []) else JNum d)
                  else JNum r)"

text \<open>\<^verbatim>\<open>s.includes(sub)\<close>: \<open>sub\<close> occurs in \<open>s\<close> as a contiguous run of characters.\<close>

definition js_includes :: "string \<Rightarrow> string \<Rightarrow> bool" where
  "js_includes s sub = sublist sub s"

text \<open>\<^verbatim>\<open>s.toLowerCase()\<close> on the ASCII letters (model identifiers are ASCII).\<close>

definition lowerChar :: "char \<Rightarrow> char" where
  "lowerChar c =
     (let n = (of_char c :: nat) in if 65 \<le> n \<and> n \<le> 90 then char_of (n + 32) else c)"

definition toLowerCase :: "string \<Rightarrow> string" where
  "toLowerCase s = map lowerChar s"

datatype error = Error string | TypeError string

section \<open>The provider classes\<close>

datatype adapter =
  OpenAI | Anthropic | Ollama | Azure | Vertex | Google | LMStudio | HuggingFace

fun getName :: "adapter \<Rightarrow> string" where
  "getName OpenAI = ''openai''"
| "getName Anthropic = ''anthropic''"
| "getName Ollama = ''ollama''"
| "getName Azure = ''azure''"
| "getName Vertex = ''vertex''"
| "getName Google = ''google''"
| "getName LMStudio = ''lmstudio''"
| "getName HuggingFace = ''huggingface''"

fun isAvailable :: "env \<Rightarrow> adapter \<Rightarrow> bool" where
  "isAvailable e OpenAI = truthy (cfg e ''OPENAI_API_KEY'')"
| "isAvailable e Anthropic = truthy (cfg e ''ANTHROPIC_API_KEY'')"
| "isAvailable e Ollama = truthy (cfg e ''OLLAMA_HOST'')"
| "isAvailable e Azure =
     (truthy (cfg e ''AZURE_OPENAI_ENDPOINT'') \<and>
      (truthy (cfg e ''AZURE_OPENAI_KEY'') \<or> cfg e ''AZURE_USE_AD_AUTH'' = Some ''true''))"
| "isAvailable e Vertex =
     (truthy (cfg e ''VERTEX_PROJECT_ID'') \<and>
      (truthy (cfg e ''VERTEX_KEY_FILE'') \<or> truthy (cfg e ''VERTEX_CREDENTIALS'') \<or>
       truthy (process_env e ''GOOGLE_APPLICATION_CREDENTIALS'')))"
| "isAvailable e Google = truthy (cfg e ''GOOGLE_API_KEY'')"
| "isAvailable e LMStudio = truthy (cfg e ''LMSTUDIO_API_BASE'')"
| "isAvailable e HuggingFace = truthy (cfg e ''HUGGINGFACE_API_KEY'')"

text \<open>The message of the error each provider throws from \<^verbatim>\<open>generateCompletion\<close> if
  \<^verbatim>\<open>isAvailable()\<close> is false.\<close>

fun notConfigured :: "adapter \<Rightarrow> string" where
  "notConfigured OpenAI = ''OpenAI provider is not configured.''"
| "notConfigured Anthropic = ''Anthropic provider is not configured.''"
| "notConfigured Ollama = ''Ollama provider is not configured.''"
| "notConfigured Azure = ''Azure OpenAI provider is not configured.''"
| "notConfigured Vertex = ''Vertex AI provider is not configured.''"
| "notConfigured Google = ''Google provider is not configured.''"
| "notConfigured LMStudio = ''LM Studio provider is not configured.''"
| "notConfigured HuggingFace = ''Hugging Face provider is not configured.''"

section \<open>Capability lookup\<close>

text \<open>
  A capability object is a JavaScript object literal whose flags are then switched on by
  substring rules; it is kept as an association list in the literal's key order.
\<close>

type_synonym capabilities = "(string \<times> bool) list"

definition enable :: "string \<Rightarrow> capabilities \<Rightarrow> capabilities" where
  "enable k c = AList.update k True c"

definition assign :: "string \<Rightarrow> bool \<Rightarrow> capabilities \<Rightarrow> capabilities" where
  "assign k b c = AList.update k b c"

definition flag :: "capabilities \<Rightarrow> string \<Rightarrow> bool" where
  "flag c k = (case map_of c k of None \<Rightarrow> False | Some b \<Rightarrow> b)"

text \<open>The statements of a method body, run from top to bottom on the object under construction.\<close>

definition seq :: "(capabilities \<Rightarrow> capabilities) list \<Rightarrow> capabilities \<Rightarrow> capabilities" where
  "seq stmts c = fold (\<lambda>stmt acc. stmt acc) stmts c"

definition applyIf :: "bool \<Rightarrow> (capabilities \<Rightarrow> capabilities) list \<Rightarrow> capabilities \<Rightarrow> capabilities" where
  "applyIf b stmts c = (if b then seq stmts c else c)"

definition allFalse :: "capabilities \<Rightarrow> bool" where
  "allFalse c = list_all (\<lambda>kv. snd kv = False) c"

subsection \<open>OpenAI\<close>

definition openai_base :: capabilities where
  "openai_base =
     [(''vision'', False), (''tool_use'', False), (''json_mode'', False),
      (''prompt_caching'', False), (''reasoning'', False), (''large_context'', False)]"

definition openai_getCapabilities :: "string \<Rightarrow> capabilities" where
  "openai_getCapabilities modelName =
     (let model = orDefault (Some modelName) ''gpt-4o'' in
      seq [
        applyIf (js_includes model ''gpt-4o'')
          [enable ''vision'', enable ''tool_use'', enable ''json_mode'', enable ''reasoning'',
           enable ''large_context''],
        applyIf (js_includes model ''o1'')
          [enable ''reasoning'', enable ''tool_use'', enable ''large_context''],
        applyIf (js_includes model ''gpt-4.1'')
          [enable ''prompt_caching'', enable ''tool_use'', enable ''json_mode'',
           applyIf (js_includes model ''standard'') [enable ''vision'', enable ''large_context'']]
      ] openai_base)"

subsection \<open>Anthropic\<close>

definition anthropic_base :: capabilities where
  "anthropic_base =
     [(''vision'', False), (''tool_use'', False), (''json_mode'', False),
      (''reasoning'', False), (''large_context'', False)]"

definition anthropic_getCapabilities :: "string \<Rightarrow> capabilities" where
  "anthropic_getCapabilities modelName =
     (let model = orDefault (Some modelName) ''claude-4.0-sonnet'' in
      (if js_includes model ''claude-4'' then
         seq [enable ''vision'', enable ''tool_use'', enable ''json_mode'', enable ''reasoning'',
              enable ''large_context'',
              applyIf (js_includes model ''opus'') [enable ''reasoning'']]
       else if js_includes model ''claude-3.5'' then
         seq [enable ''vision'', enable ''tool_use'', enable ''json_mode'',
              applyIf (js_includes model ''sonnet'') [enable ''large_context'']]
       else if js_includes model ''claude-3'' then
         seq [enable ''vision'',
              applyIf (js_includes model ''opus'' \<or> js_includes model ''sonnet'')
                [enable ''tool_use'', enable ''json_mode''],
              applyIf (js_includes model ''opus'') [enable ''large_context'']]
       else seq [])
      anthropic_base)"

subsection \<open>Ollama\<close>

definition ollama_base :: capabilities where
  "ollama_base =
     [(''vision'', False), (''tool_use'', False), (''json_mode'', False),
      (''reasoning'', False), (''local'', True)]"

definition ollama_getCapabilities :: "env \<Rightarrow> string \<Rightarrow> capabilities" where
  "ollama_getCapabilities e modelName =
     (let model = orDefault (orElse (Some modelName) (cfg e ''OLLAMA_MODEL'')) ''llama3'' in
      seq [
        (if js_includes model ''llama3'' then seq [enable ''json_mode'', enable ''tool_use'']
         else if js_includes model ''codellama'' then seq [enable ''json_mode'', enable ''tool_use'']
         else if js_includes model ''mistral'' then seq [enable ''json_mode'']
         else seq []),
        applyIf (js_includes model ''vision'' \<or> js_includes model ''llava'') [enable ''vision'']
      ] ollama_base)"

subsection \<open>Azure OpenAI\<close>

definition azure_base :: capabilities where
  "azure_base =
     [(''vision'', False), (''tool_use'', False), (''json_mode'', False),
      (''reasoning'', False), (''large_context'', False),
      (''content_filtering'', True), (''on_your_data'', True)]"

text \<open>
  \<^verbatim>\<open>const model = modelName || this.config.AZURE_OPENAI_DEPLOYMENT_NAME\<close> has no literal
  at the end: with an empty identifier and no deployment name configured, \<^verbatim>\<open>model\<close> is
  \<^verbatim>\<open>undefined\<close> and \<^verbatim>\<open>model.includes\<close> throws a TypeError.
\<close>

definition azure_getCapabilities :: "env \<Rightarrow> string \<Rightarrow> error + capabilities" where
  "azure_getCapabilities e modelName =
     (case orElse (Some modelName) (cfg e ''AZURE_OPENAI_DEPLOYMENT_NAME'') of
        None \<Rightarrow> Inl (TypeError ''Cannot read properties of undefined (reading 'includes')'')
      | Some model \<Rightarrow> Inr (seq [
          applyIf (js_includes model ''o3'' \<or> js_includes model ''o4'')
            [enable ''reasoning'', enable ''tool_use'', enable ''json_mode'', enable ''vision'',
             enable ''large_context''],
          applyIf (js_includes model ''gpt-4o'')
            [enable ''vision'', enable ''tool_use'', enable ''json_mode'', enable ''large_context''],
          applyIf (js_includes model ''gpt-4.1'')
            [enable ''tool_use'', enable ''json_mode'',
             applyIf (js_includes model ''standard'') [enable ''vision'', enable ''large_context'']]
        ] azure_base))"

subsection \<open>Vertex AI and Google AI\<close>

definition gemini_base :: capabilities where
  "gemini_base =
     [(''vision'', False), (''tool_use'', False), (''json_mode'', False),
      (''reasoning'', False), (''large_context'', False), (''streaming'', False),
      (''function_calling'', False)]"

definition vertex_defaultModel :: "env \<Rightarrow> string" where
  "vertex_defaultModel e = orDefault (cfg e ''VERTEX_MODEL'') ''gemini-2.5-flash''"

definition vertex_getCapabilities :: "env \<Rightarrow> string \<Rightarrow> capabilities" where
  "vertex_getCapabilities e modelName =
     (let model = orDefault (orElse (Some modelName) (Some (vertex_defaultModel e)))
                    ''gemini-2.5-flash'' in
      (if js_includes model ''gemini-2.5'' then
         seq [enable ''vision'', enable ''tool_use'', enable ''json_mode'', enable ''streaming'',
              enable ''function_calling'', enable ''reasoning'',
              applyIf (js_includes model ''pro'') [enable ''large_context''],
              applyIf (js_includes model ''flash'') [enable ''large_context'']]
       else if js_includes model ''gemini-2.0'' then
         seq [enable ''tool_use'', enable ''json_mode'', enable ''streaming'',
              enable ''function_calling'',
              applyIf (js_includes model ''pro'')
                [enable ''vision'', enable ''large_context'', enable ''reasoning''],
              applyIf (js_includes model ''flash'') [enable ''vision'']]
       else if js_includes model ''gemini-1.5'' then
         seq [enable ''vision'', enable ''tool_use'', enable ''streaming'',
              applyIf (js_includes model ''pro'')
                [enable ''large_context'', enable ''json_mode'', enable ''function_calling'',
                 enable ''reasoning''],
              applyIf (js_includes model ''flash'')
                [enable ''json_mode'',
                 assign ''function_calling''
                   (js_includes model ''flash-001'' \<or> js_includes model ''flash-002'')]]
       else if js_includes model ''gemini-1.0'' then
         seq [enable ''json_mode'',
              applyIf (js_includes model ''pro'')
                [enable ''vision'', enable ''tool_use'', enable ''function_calling'']]
       else seq [])
      gemini_base)"

definition google_defaultModel :: "env \<Rightarrow> string" where
  "google_defaultModel e = orDefault (cfg e ''GOOGLE_DEFAULT_MODEL'') ''gemini-2.5-flash''"

definition google_getCapabilities :: "env \<Rightarrow> string \<Rightarrow> capabilities" where
  "google_getCapabilities e modelName =
     (let model = orDefault (orElse (Some modelName) (Some (google_defaultModel e)))
                    ''gemini-2.5-flash'' in
      (if js_includes model ''gemini-2.5'' then
         seq [enable ''vision'', enable ''tool_use'', enable ''json_mode'', enable ''streaming'',
              enable ''function_calling'',
              applyIf (js_includes model ''pro'') [enable ''reasoning'', enable ''large_context''],
              applyIf (js_includes model ''flash'') [enable ''large_context'']]
       else if js_includes model ''gemini-2.0'' then
         seq [enable ''tool_use'', enable ''json_mode'', enable ''streaming'',
              enable ''function_calling'',
              applyIf (js_includes model ''pro'')
                [enable ''vision'', enable ''large_context'', enable ''reasoning''],
              applyIf (js_includes model ''flash'') [enable ''vision'']]
       else if js_includes model ''gemini-1.5'' then
         seq [enable ''vision'', enable ''tool_use'', enable ''streaming'',
              applyIf (js_includes model ''pro'')
                [enable ''large_context'', enable ''json_mode'', enable ''function_calling''],
              applyIf (js_includes model ''flash'')
                [enable ''json_mode'',
                 assign ''function_calling''
                   (js_includes model ''flash-001'' \<or> js_includes model ''flash-002'')]]
       else seq [])
      gemini_base)"

subsection \<open>LM Studio\<close>

definition lmstudio_base :: capabilities where
  "lmstudio_base =
     [(''vision'', False), (''tool_use'', False), (''json_mode'', False),
      (''reasoning'', False), (''local'', True)]"

definition lmstudio_getCapabilities :: "env \<Rightarrow> string \<Rightarrow> capabilities" where
  "lmstudio_getCapabilities e modelName =
     (let model = orDefault (orElse (Some modelName) (cfg e ''LMSTUDIO_MODEL'')) ''local-model'' in
      seq [
        (if js_includes (toLowerCase model) ''llama'' then
           seq [enable ''json_mode'', applyIf (js_includes model ''3'') [enable ''tool_use'']]
         else if js_includes (toLowerCase model) ''mistral'' then
           seq [enable ''json_mode'',
                applyIf (js_includes (toLowerCase model) ''mixtral'') [enable ''reasoning'']]
         else seq []),
        applyIf (js_includes (toLowerCase model) ''vision'' \<or>
                 js_includes (toLowerCase model) ''llava'' \<or>
                 js_includes (toLowerCase model) ''bakllava'') [enable ''vision'']
      ] lmstudio_base)"

subsection \<open>Hugging Face\<close>

definition huggingface_base :: capabilities where
  "huggingface_base =
     [(''vision'', False), (''tool_use'', False), (''json_mode'', False),
      (''reasoning'', False), (''large_context'', False)]"

definition huggingface_getCapabilities :: "string \<Rightarrow> capabilities" where
  "huggingface_getCapabilities modelName =
     (let model = orDefault (Some modelName) ''mistralai/Mixtral-8x22B-Instruct-v0.1'' in
      (if js_includes model ''Llama-3.1'' then
         seq [enable ''json_mode'', enable ''tool_use'',
              applyIf (js_includes model ''70B'')
                [enable ''vision'', enable ''reasoning'', enable ''large_context''],
              applyIf (js_includes model ''8B'') [enable ''large_context'']]
       else if js_includes model ''Mixtral'' then
         seq [enable ''json_mode'', assign ''tool_use'' (js_includes model ''8x22B''),
              enable ''large_context'']
       else if js_includes model ''Mistral'' then seq [enable ''json_mode'']
       else if js_includes model ''zephyr'' then seq [enable ''json_mode'']
       else seq [])
      huggingface_base)"

subsection \<open>The lookup of every provider\<close>

fun getCapabilities :: "env \<Rightarrow> adapter \<Rightarrow> string \<Rightarrow> error + capabilities" where
  "getCapabilities e OpenAI m = Inr (openai_getCapabilities m)"
| "getCapabilities e Anthropic m = Inr (anthropic_getCapabilities m)"
| "getCapabilities e Ollama m = Inr (ollama_getCapabilities e m)"
| "getCapabilities e Azure m = azure_getCapabilities e m"
| "getCapabilities e Vertex m = Inr (vertex_getCapabilities e m)"
| "getCapabilities e Google m = Inr (google_getCapabilities e m)"
| "getCapabilities e LMStudio m = Inr (lmstudio_getCapabilities e m)"
| "getCapabilities e HuggingFace m = Inr (huggingface_getCapabilities m)"

section \<open>Model recommendation\<close>

text \<open>
  \<^verbatim>\<open>commitDetails\<close> carries two flags and two counts. Each provider answers with a
  model name and the reason, which names the size bucket the commit fell into.
\<close>

record commitDetails =
  breaking :: bool
  complex :: bool
  lines :: int
  files :: int

record recommendation =
  rec_model :: string
  reason :: string

definition openai_getModelRecommendation :: "commitDetails \<Rightarrow> recommendation" where
  "openai_getModelRecommendation d =
     (if breaking d \<or> complex d \<or> files d > 20 then
        \<lparr>rec_model = ''gpt-4o'', reason = ''Complex or breaking change requiring advanced reasoning''\<rparr>
      else if lines d > 1000 \<or> files d > 10 then
        \<lparr>rec_model = ''gpt-4.1-standard'', reason = ''Large change requiring standard capabilities''\<rparr>
      else if lines d < 200 then
        \<lparr>rec_model = ''gpt-4.1-nano'', reason = ''Small change, optimized for efficiency''\<rparr>
      else \<lparr>rec_model = ''gpt-4.1-mini'', reason = ''Medium-sized change''\<rparr>)"

definition anthropic_getModelRecommendation :: "commitDetails \<Rightarrow> recommendation" where
  "anthropic_getModelRecommendation d =
     (if breaking d \<or> complex d then
        \<lparr>rec_model = ''claude-4.0-opus'', reason = ''Complex or breaking change detected''\<rparr>
      else if lines d > 1000 \<or> files d > 30 then
        \<lparr>rec_model = ''claude-4.0-sonnet'', reason = ''Large commit size''\<rparr>
      else if lines d > 500 \<or> files d > 15 then
        \<lparr>rec_model = ''claude-3.5-sonnet'', reason = ''Medium-large commit size''\<rparr>
      else if lines d > 200 \<or> files d > 8 then
        \<lparr>rec_model = ''claude-3.5-haiku'', reason = ''Medium commit size''\<rparr>
      else \<lparr>rec_model = ''claude-3-haiku'', reason = ''Standard commit size''\<rparr>)"

definition ollama_getModelRecommendation :: "env \<Rightarrow> commitDetails \<Rightarrow> recommendation" where
  "ollama_getModelRecommendation e d =
     \<lparr>rec_model = orDefault (cfg e ''OLLAMA_MODEL'') ''llama3'',
      reason = ''Using configured or default Ollama model''\<rparr>"

definition azure_getModelRecommendation :: "commitDetails \<Rightarrow> recommendation" where
  "azure_getModelRecommendation d =
     (if breaking d \<or> complex d then
        \<lparr>rec_model = ''o4'', reason = ''Breaking or complex change detected, using o4 model''\<rparr>
      else if lines d > 1000 \<or> files d > 25 then
        \<lparr>rec_model = ''o3'', reason = ''Large and complex commit, using o3 model''\<rparr>
      else if lines d > 500 \<or> files d > 15 then
        \<lparr>rec_model = ''gpt-4o'', reason = ''Medium-large commit size''\<rparr>
      else if lines d > 200 \<or> files d > 8 then
        \<lparr>rec_model = ''gpt-4.1-standard'', reason = ''Medium commit size''\<rparr>
      else \<lparr>rec_model = ''gpt-4.1-mini'', reason = ''Standard commit size''\<rparr>)"

text \<open>The Vertex AI and the Google AI provider carry the same table.\<close>

definition gemini_getModelRecommendation :: "commitDetails \<Rightarrow> recommendation" where
  "gemini_getModelRecommendation d =
     (if breaking d \<or> complex d then
        \<lparr>rec_model = ''gemini-2.5-pro'', reason = ''Complex or breaking change detected''\<rparr>
      else if lines d > 1500 \<or> files d > 30 then
        \<lparr>rec_model = ''gemini-2.5-pro'', reason = ''Large commit size''\<rparr>
      else if lines d > 800 \<or> files d > 20 then
        \<lparr>rec_model = ''gemini-2.0-pro'', reason = ''Medium-large commit size''\<rparr>
      else if lines d > 300 \<or> files d > 10 then
        \<lparr>rec_model = ''gemini-2.0-flash'', reason = ''Medium commit size''\<rparr>
      else \<lparr>rec_model = ''gemini-2.5-flash'', reason = ''Standard commit size''\<rparr>)"

definition lmstudio_getModelRecommendation :: "env \<Rightarrow> commitDetails \<Rightarrow> recommendation" where
  "lmstudio_getModelRecommendation e d =
     \<lparr>rec_model = orDefault (cfg e ''LMSTUDIO_MODEL'') ''local-model'',
      reason = ''Using configured LM Studio model''\<rparr>"

definition huggingface_getModelRecommendation :: "commitDetails \<Rightarrow> recommendation" where
  "huggingface_getModelRecommendation d =
     (if breaking d \<or> complex d then
        \<lparr>rec_model = ''meta-llama/Meta-Llama-3.1-70B-Instruct'',
         reason = ''Complex or breaking change detected''\<rparr>
      else if lines d > 1000 \<or> files d > 25 then
        \<lparr>rec_model = ''mistralai/Mixtral-8x22B-Instruct-v0.1'', reason = ''Large commit size''\<rparr>
      else if lines d > 500 \<or> files d > 15 then
        \<lparr>rec_model = ''meta-llama/Meta-Llama-3.1-8B-Instruct'', reason = ''Medium-large commit size''\<rparr>
      else if lines d > 200 \<or> files d > 8 then
        \<lparr>rec_model = ''mistralai/Mistral-7B-Instruct-v0.3'', reason = ''Medium commit size''\<rparr>
      else \<lparr>rec_model = ''HuggingFaceH4/zephyr-7b-beta'', reason = ''Standard commit size''\<rparr>)"

fun getModelRecommendation :: "env \<Rightarrow> adapter \<Rightarrow> commitDetails \<Rightarrow> recommendation" where
  "getModelRecommendation e OpenAI d = openai_getModelRecommendation d"
| "getModelRecommendation e Anthropic d = anthropic_getModelRecommendation d"
| "getModelRecommendation e Ollama d = ollama_getModelRecommendation e d"
| "getModelRecommendation e Azure d = azure_getModelRecommendation d"
| "getModelRecommendation e Vertex d = gemini_getModelRecommendation d"
| "getModelRecommendation e Google d = gemini_getModelRecommendation d"
| "getModelRecommendation e LMStudio d = lmstudio_getModelRecommendation e d"
| "getModelRecommendation e HuggingFace d = huggingface_getModelRecommendation d"

text \<open>
  The tier of a recommendation is the size bucket its reason names, counted from the
  smallest bucket of the provider's table: small or standard, medium, medium-large, large,
  and on top the row for breaking or complex changes. The two local providers have a single
  row.
\<close>

definition tier :: "recommendation \<Rightarrow> nat" where
  "tier r =
     (if reason r = ''Small change, optimized for efficiency'' then 0
      else if reason r = ''Standard commit size'' then 0
      else if reason r = ''Using configured or default Ollama model'' then 0
      else if reason r = ''Using configured LM Studio model'' then 0
      else if reason r = ''Medium-sized change'' then 1
      else if reason r = ''Medium commit size'' then 1
      else if reason r = ''Medium-large commit size'' then 2
      else if reason r = ''Large change requiring standard capabilities'' then 3
      else if reason r = ''Large commit size'' then 3
      else if reason r = ''Large and complex commit, using o3 model'' then 3
      else 4)"

section \<open>Completion requests\<close>

text \<open>
  A message has a role and a text content (multimodal parts are outside the model).
  \<^verbatim>\<open>options\<close> holds the fields the providers read: \<open>None\<close> is \<^verbatim>\<open>undefined\<close>;
  \<open>opt_onUpdate\<close> and \<open>opt_onStreamData\<close> say whether the field of that name is a
  function; \<open>opt_retryCount\<close> and \<open>opt_triedFallback\<close> are the fields the Vertex provider
  adds to the options of its own recursive calls. The numeric fields are all those that
  some provider reads through \<^verbatim>\<open>||\<close>.
\<close>

record message =
  role :: string
  msg_content :: string

record options =
  opt_model :: "string option"
  opt_max_tokens :: "rat option"
  opt_temperature :: "rat option"
  opt_top_p :: "rat option"
  opt_top_k :: "rat option"
  opt_n :: "rat option"
  opt_repetition_penalty :: "rat option"
  opt_frequency_penalty :: "rat option"
  opt_presence_penalty :: "rat option"
  opt_tools :: "string list option"
  opt_stream :: bool
  opt_onUpdate :: bool
  opt_onStreamData :: bool
  opt_retryCount :: "nat option"
  opt_triedFallback :: bool
  opt_useEndpoint :: bool
  opt_useMcp :: bool

text \<open>The options object \<^verbatim>\<open>{}\<close>.\<close>

definition noOptions :: options where
  "noOptions =
     \<lparr>opt_model = None, opt_max_tokens = None, opt_temperature = None,
      opt_top_p = None, opt_top_k = None, opt_n = None, opt_repetition_penalty = None,
      opt_frequency_penalty = None, opt_presence_penalty = None, opt_tools = None,
      opt_stream = False, opt_onUpdate = False, opt_onStreamData = False,
      opt_retryCount = None, opt_triedFallback = False,
      opt_useEndpoint = False, opt_useMcp = False\<rparr>"

text \<open>
  What a provider hands to its vendor SDK: the client it calls, the model, the messages in
  the vendor's shape, and the generation parameters. A numeric parameter that a request
  does not carry is \<open>None\<close>. \<open>p_max_tokens\<close> is the field the vendor reads the output
  limit from (\<^verbatim>\<open>max_tokens\<close>, \<^verbatim>\<open>num_predict\<close>, \<^verbatim>\<open>max_new_tokens\<close> or
  \<^verbatim>\<open>maxOutputTokens\<close>), \<open>p_n\<close> is Google's \<^verbatim>\<open>candidateCount\<close>. Pass-through
  parameters that are not numbers (\<^verbatim>\<open>stop\<close>, \<^verbatim>\<open>user\<close>, JSON mode, safety settings)
  are left out.
\<close>

datatype client = Sdk | Endpoint | Mcp

record params =
  p_client :: client
  p_model :: "string option"
  p_system :: "string option"
  p_messages :: "message list"
  p_max_tokens :: jsval
  p_temperature :: jsval
  p_top_p :: "jsval option"
  p_top_k :: "jsval option"
  p_n :: "jsval option"
  p_repetition_penalty :: "jsval option"
  p_frequency_penalty :: "jsval option"
  p_presence_penalty :: "jsval option"
  p_tools :: "string list option"
  p_stream :: bool

text \<open>
  The vendor is outside the program. It is an oracle that answers the \<open>n\<close>-th call of a
  request: a thrown error is \<open>Inl\<close> of its message. A stream is the list of its fragments
  and, when the iteration itself fails after them, the message of that error.
\<close>

record completion =
  v_content :: string
  v_model :: string

type_synonym vstream = "string list \<times> string option"

record endpoint_reply =
  generated_text :: "string option"
  outputs :: "string option"
  ep_text :: "string option"

record vendor =
  clientInit :: bool
  chat :: "nat \<Rightarrow> params \<Rightarrow> string + completion"
  chatStream :: "nat \<Rightarrow> params \<Rightarrow> string + vstream"
  predict :: "nat \<Rightarrow> params \<Rightarrow> string + endpoint_reply"

text \<open>
  The object a completion resolves to. \<open>content = None\<close> and \<open>stream = None\<close> mean that
  the object has no such field.
\<close>

record response =
  content :: "string option"
  model :: "string option"
  stream :: "vstream option"

text \<open>
  An asynchronous call ends in one of three ways: its promise is fulfilled, it is rejected,
  or it is never settled. The trace records what the call did on the way: the vendor calls,
  the timer delays in milliseconds, the invocations of the caller's progress callback, and
  the rejections that no handler received.

  The trace also carries the two pieces of state a completion of the Vertex provider reads
  and writes: \<open>client\<close>, whether \<^verbatim>\<open>this.client\<close> is set, and \<open>modelCache\<close>, the
  module-level \<^verbatim>\<open>const modelCache = new Map()\<close> that every instance of the class
  shares. A cached model instance is kept as the generation configuration it was created
  with; its model name is part of its key. The key is
  \<^verbatim>\<open>`${modelName}-${JSON.stringify(options)}`\<close>: the model name and the options without
  their function-valued fields, kept here as a pair. The map is a list in insertion order,
  a key occurring once. (\<^verbatim>\<open>testConnection\<close> of the class caches instances under the
  options \<^verbatim>\<open>{ maxOutputTokens: 20 }\<close>, a field no completion reads; such keys are not
  keys of a completion and are left out.)
\<close>

datatype 'a promise = Resolved 'a | Rejected error | Pending

datatype update = Chunk string | Done string | Failed string

record generationConfig =
  gc_temperature :: jsval
  gc_topP :: jsval
  gc_topK :: jsval
  gc_maxOutputTokens :: jsval

record trace =
  calls :: "params list"
  sleeps :: "nat list"
  updates :: "update list"
  unhandled :: "error list"
  client :: bool
  modelCache :: "((string \<times> options) \<times> generationConfig) list"

text \<open>A fresh process: nothing has happened, no client exists and the cache is empty.\<close>

definition emptyTrace :: trace where
  "emptyTrace =
     \<lparr>calls = [], sleeps = [], updates = [], unhandled = [], client = False, modelCache = []\<rparr>"

definition called :: "params \<Rightarrow> trace \<Rightarrow> trace" where
  "called p tr = tr\<lparr>calls := calls tr @ [p]\<rparr>"

definition notify :: "update list \<Rightarrow> trace \<Rightarrow> trace" where
  "notify us tr = tr\<lparr>updates := updates tr @ us\<rparr>"

text \<open>\<^verbatim>\<open>const stream = await client.create(params); return { stream, model }\<close>\<close>

definition rawStream :: "vendor \<Rightarrow> params \<Rightarrow> trace \<Rightarrow> response promise \<times> trace" where
  "rawStream v p tr =
     (case chatStream v (length (calls tr)) p of
        Inl msg \<Rightarrow> (Rejected (Error msg), called p tr)
      | Inr s \<Rightarrow> (Resolved \<lparr>content = None, model = p_model p, stream = Some s\<rparr>, called p tr))"

text \<open>A plain chat call whose reply is turned into the returned object by \<open>shape\<close>.\<close>

definition plainChat ::
  "vendor \<Rightarrow> params \<Rightarrow> (completion \<Rightarrow> response) \<Rightarrow> (string \<Rightarrow> error) \<Rightarrow> trace
     \<Rightarrow> response promise \<times> trace" where
  "plainChat v p shape rethrow tr =
     (case chat v (length (calls tr)) p of
        Inl msg \<Rightarrow> (Rejected (rethrow msg), called p tr)
      | Inr c \<Rightarrow> (Resolved (shape c), called p tr))"

definition fromVendor :: "completion \<Rightarrow> response" where
  "fromVendor c = \<lparr>content = Some (v_content c), model = Some (v_model c), stream = None\<rparr>"

definition withModel :: "string \<Rightarrow> completion \<Rightarrow> response" where
  "withModel m c = \<lparr>content = Some (v_content c), model = Some m, stream = None\<rparr>"

subsection \<open>OpenAI\<close>

definition openai_params :: "message list \<Rightarrow> options \<Rightarrow> params" where
  "openai_params messages opts =
     \<lparr>p_client = Sdk,
      p_model = Some (orDefault (opt_model opts) ''gpt-4o''),
      p_system = None,
      p_messages = messages,
      p_max_tokens = JNum (numOr (opt_max_tokens opts) 1000),
      p_temperature = JNum (numOr (opt_temperature opts) (3 / 10)),
      p_top_p = None,
      p_top_k = None,
      p_n = None,
      p_repetition_penalty = None,
      p_frequency_penalty = None,
      p_presence_penalty = None,
      p_tools = opt_tools opts,
      p_stream = False\<rparr>"

definition openai_generateCompletion ::
  "env \<Rightarrow> vendor \<Rightarrow> message list \<Rightarrow> options \<Rightarrow> trace \<Rightarrow> response promise \<times> trace" where
  "openai_generateCompletion e v messages opts tr =
     (if \<not> isAvailable e OpenAI then (Rejected (Error (notConfigured OpenAI)), tr)
      else let params = openai_params messages opts in
        if opt_stream opts then rawStream v (params\<lparr>p_stream := True\<rparr>) tr
        else plainChat v params fromVendor Error tr)"

subsection \<open>Anthropic\<close>

definition systemOf :: "message list \<Rightarrow> string option" where
  "systemOf messages = map_option msg_content (find (\<lambda>m. role m = ''system'') messages)"

definition anthropic_params :: "message list \<Rightarrow> options \<Rightarrow> params" where
  "anthropic_params messages opts =
     \<lparr>p_client = Sdk,
      p_model = Some (orDefault (opt_model opts) ''claude-4.0-sonnet''),
      p_system = systemOf messages,
      p_messages = filter (\<lambda>m. role m \<noteq> ''system'') messages,
      p_max_tokens = JNum (numOr (opt_max_tokens opts) 4096),
      p_temperature = JNum (numOr (opt_temperature opts) (3 / 10)),
      p_top_p = None,
      p_top_k = None,
      p_n = None,
      p_repetition_penalty = None,
      p_frequency_penalty = None,
      p_presence_penalty = None,
      p_tools = opt_tools opts,
      p_stream = False\<rparr>"

definition anthropic_generateCompletion ::
  "env \<Rightarrow> vendor \<Rightarrow> message list \<Rightarrow> options \<Rightarrow> trace \<Rightarrow> response promise \<times> trace" where
  "anthropic_generateCompletion e v messages opts tr =
     (if \<not> isAvailable e Anthropic then (Rejected (Error (notConfigured Anthropic)), tr)
      else let params = anthropic_params messages opts in
        if opt_stream opts then rawStream v (params\<lparr>p_stream := True\<rparr>) tr
        else plainChat v params fromVendor Error tr)"

subsection \<open>Ollama\<close>

definition ollama_params :: "env \<Rightarrow> message list \<Rightarrow> options \<Rightarrow> params" where
  "ollama_params e messages opts =
     \<lparr>p_client = Sdk,
      p_model = Some (orDefault (orElse (opt_model opts) (cfg e ''OLLAMA_MODEL'')) ''llama3''),
      p_system = None,
      p_messages = messages,
      p_max_tokens = JNum (numOr (opt_max_tokens opts) 1024),
      p_temperature = JNum (numOr (opt_temperature opts) (7 / 10)),
      p_top_p = Some (JNum (numOr (opt_top_p opts) (9 / 10))),
      p_top_k = None,
      p_n = None,
      p_repetition_penalty = None,
      p_frequency_penalty = None,
      p_presence_penalty = None,
      p_tools = None,
      p_stream = False\<rparr>"

definition ollama_generateCompletion ::
  "env \<Rightarrow> vendor \<Rightarrow> message list \<Rightarrow> options \<Rightarrow> trace \<Rightarrow> response promise \<times> trace" where
  "ollama_generateCompletion e v messages opts tr =
     (if \<not> isAvailable e Ollama then (Rejected (Error (notConfigured Ollama)), tr)
      else let modelName = orDefault (orElse (opt_model opts) (cfg e ''OLLAMA_MODEL'')) ''llama3'';
               params = ollama_params e messages opts in
        if opt_stream opts then rawStream v (params\<lparr>p_stream := True\<rparr>) tr
        else let params =
                   (if opt_tools opts \<noteq> None \<and> flag (ollama_getCapabilities e modelName) ''tool_use''
                    then params\<lparr>p_tools := opt_tools opts\<rparr> else params)
             in plainChat v params fromVendor Error tr)"

subsection \<open>Azure OpenAI\<close>

definition azure_params :: "env \<Rightarrow> message list \<Rightarrow> options \<Rightarrow> params" where
  "azure_params e messages opts =
     \<lparr>p_client = Sdk,
      p_model = orElse (opt_model opts) (cfg e ''AZURE_OPENAI_DEPLOYMENT_NAME''),
      p_system = None,
      p_messages = messages,
      p_max_tokens = JNum (numOr (opt_max_tokens opts) 1000),
      p_temperature = JNum (numOr (opt_temperature opts) (3 / 10)),
      p_top_p = None,
      p_top_k = None,
      p_n = None,
      p_repetition_penalty = None,
      p_frequency_penalty = None,
      p_presence_penalty = None,
      p_tools = opt_tools opts,
      p_stream = False\<rparr>"

definition azure_generateCompletion ::
  "env \<Rightarrow> vendor \<Rightarrow> message list \<Rightarrow> options \<Rightarrow> trace \<Rightarrow> response promise \<times> trace" where
  "azure_generateCompletion e v messages opts tr =
     (if \<not> isAvailable e Azure then (Rejected (Error (notConfigured Azure)), tr)
      else let params = azure_params e messages opts in
        if opt_stream opts then rawStream v (params\<lparr>p_stream := True\<rparr>) tr
        else plainChat v params fromVendor Error tr)"

subsection \<open>LM Studio\<close>

definition lmstudio_params :: "env \<Rightarrow> message list \<Rightarrow> options \<Rightarrow> params" where
  "lmstudio_params e messages opts =
     \<lparr>p_client = Sdk,
      p_model = Some (orDefault (orElse (opt_model opts) (cfg e ''LMSTUDIO_MODEL'')) ''local-model''),
      p_system = None,
      p_messages = messages,
      p_max_tokens = JNum (numOr (opt_max_tokens opts) 2048),
      p_temperature = JNum (numOr (opt_temperature opts) (7 / 10)),
      p_top_p = Some (JNum (numOr (opt_top_p opts) (95 / 100))),
      p_top_k = None,
      p_n = None,
      p_repetition_penalty = None,
      p_frequency_penalty = Some (JNum (numOr (opt_frequency_penalty opts) 0)),
      p_presence_penalty = Some (JNum (numOr (opt_presence_penalty opts) 0)),
      p_tools = None,
      p_stream = False\<rparr>"

definition lmstudio_error :: "string \<Rightarrow> error" where
  "lmstudio_error msg =
     Error (''LM Studio API error: '' @ orDefault (Some msg) ''Unknown error'' @
            ''. Make sure LM Studio is running and the API is enabled.'')"

definition lmstudio_generateCompletion ::
  "env \<Rightarrow> vendor \<Rightarrow> message list \<Rightarrow> options \<Rightarrow> trace \<Rightarrow> response promise \<times> trace" where
  "lmstudio_generateCompletion e v messages opts tr =
     (if \<not> isAvailable e LMStudio then (Rejected (Error (notConfigured LMStudio)), tr)
      else let modelName =
                 orDefault (orElse (opt_model opts) (cfg e ''LMSTUDIO_MODEL'')) ''local-model'';
               params = lmstudio_params e messages opts in
        if opt_stream opts then rawStream v (params\<lparr>p_stream := True\<rparr>) tr
        else let params =
                   (if opt_tools opts \<noteq> None \<and>
                       flag (lmstudio_getCapabilities e modelName) ''tool_use''
                    then params\<lparr>p_tools := opt_tools opts\<rparr> else params)
             in plainChat v params fromVendor lmstudio_error tr)"

subsection \<open>Hugging Face\<close>

text \<open>
  The constructor creates the endpoint client when \<^verbatim>\<open>HUGGINGFACE_ENDPOINT_URL\<close> is set
  and the MCP client when \<^verbatim>\<open>HUGGINGFACE_USE_MCP\<close> is the string \<^verbatim>\<open>true\<close>.
\<close>

definition huggingface_hfEndpoint :: "env \<Rightarrow> bool" where
  "huggingface_hfEndpoint e = truthy (cfg e ''HUGGINGFACE_ENDPOINT_URL'')"

definition huggingface_mcpClient :: "env \<Rightarrow> bool" where
  "huggingface_mcpClient e = (cfg e ''HUGGINGFACE_USE_MCP'' = Some ''true'')"

definition huggingface_params :: "message list \<Rightarrow> options \<Rightarrow> params" where
  "huggingface_params messages opts =
     \<lparr>p_client = Sdk,
      p_model = Some (orDefault (opt_model opts) ''mistralai/Mixtral-8x22B-Instruct-v0.1''),
      p_system = None,
      p_messages = messages,
      p_max_tokens = JNum (numOr (opt_max_tokens opts) 4096),
      p_temperature = JNum (numOr (opt_temperature opts) (5 / 10)),
      p_top_p = Some (JNum (numOr (opt_top_p opts) (95 / 100))),
      p_top_k = None,
      p_n = None,
      p_repetition_penalty = Some (JNum (numOr (opt_repetition_penalty opts) (11 / 10))),
      p_frequency_penalty = None,
      p_presence_penalty = None,
      p_tools = None,
      p_stream = False\<rparr>"

definition generateWithEndpoint ::
  "vendor \<Rightarrow> message list \<Rightarrow> string \<Rightarrow> options \<Rightarrow> trace \<Rightarrow> response promise \<times> trace" where
  "generateWithEndpoint v messages modelId opts tr =
     (let payload = (huggingface_params messages opts)
                      \<lparr>p_client := Endpoint, p_model := None, p_repetition_penalty := None\<rparr> in
      case predict v (length (calls tr)) payload of
        Inl msg \<Rightarrow> (Rejected (Error msg), called payload tr)
      | Inr r \<Rightarrow>
          (Resolved \<lparr>content = orElse (orElse (generated_text r) (outputs r)) (ep_text r),
                     model = Some modelId, stream = None\<rparr>,
           called payload tr))"

definition generateWithMcp ::
  "vendor \<Rightarrow> message list \<Rightarrow> string \<Rightarrow> options \<Rightarrow> trace \<Rightarrow> response promise \<times> trace" where
  "generateWithMcp v messages modelId opts tr =
     (let request = (huggingface_params messages opts)
                      \<lparr>p_client := Mcp, p_top_p := None, p_repetition_penalty := None,
                       p_tools := opt_tools opts, p_stream := opt_stream opts\<rparr> in
      if opt_stream opts then rawStream v request tr
      else plainChat v request (withModel modelId) Error tr)"

definition huggingface_generateCompletion ::
  "env \<Rightarrow> vendor \<Rightarrow> message list \<Rightarrow> options \<Rightarrow> trace \<Rightarrow> response promise \<times> trace" where
  "huggingface_generateCompletion e v messages opts tr =
     (if \<not> isAvailable e HuggingFace then (Rejected (Error (notConfigured HuggingFace)), tr)
      else let modelId = orDefault (opt_model opts) ''mistralai/Mixtral-8x22B-Instruct-v0.1'' in
        if huggingface_hfEndpoint e \<and> opt_useEndpoint opts then
          generateWithEndpoint v messages modelId opts tr
        else if huggingface_mcpClient e \<and> opt_useMcp opts then
          generateWithMcp v messages modelId opts tr
        else let params = huggingface_params messages opts in
          if opt_stream opts then rawStream v (params\<lparr>p_stream := True\<rparr>) tr
          else let params =
                     (if opt_tools opts \<noteq> None \<and>
                         flag (huggingface_getCapabilities modelId) ''tool_use''
                      then params\<lparr>p_tools := opt_tools opts\<rparr> else params)
               in plainChat v params (withModel modelId) Error tr)"

subsection \<open>Google AI\<close>

text \<open>
  The model cache of this class belongs to the provider instance and is keyed by the
  complete model options, generation parameters included, so a cached model is the one
  that would be created; the cache is left out.
\<close>

definition geminiRole :: "message \<Rightarrow> message" where
  "geminiRole m = m\<lparr>role := (if role m = ''assistant'' then ''model'' else role m)\<rparr>"

definition google_params :: "env \<Rightarrow> message list \<Rightarrow> options \<Rightarrow> params" where
  "google_params e messages opts =
     \<lparr>p_client = Sdk,
      p_model = Some (orDefault (orElse (opt_model opts) (Some (google_defaultModel e)))
                        ''gemini-2.5-flash''),
      p_system = (if truthy (systemOf messages) then systemOf messages else None),
      p_messages = map geminiRole (filter (\<lambda>m. role m \<noteq> ''system'') messages),
      p_max_tokens = JNum (numOr (opt_max_tokens opts) 8192),
      p_temperature = JNum (numOr (opt_temperature opts) (4 / 10)),
      p_top_p = Some (JNum (numOr (opt_top_p opts) (95 / 100))),
      p_top_k = Some (JNum (numOr (opt_top_k opts) 64)),
      p_n = Some (JNum (numOr (opt_n opts) 1)),
      p_repetition_penalty = None,
      p_frequency_penalty = None,
      p_presence_penalty = None,
      p_tools = None,
      p_stream = False\<rparr>"

definition google_rateLimited :: "string \<Rightarrow> bool" where
  "google_rateLimited msg = (js_includes msg ''rate limit'' \<or> js_includes msg ''quota'')"

text \<open>
  The streaming branch and the tool branch read \<^verbatim>\<open>contents[contents.length - 1].parts\<close>,
  which throws a TypeError when no message is left after the system messages are removed.
  The handler of a rate-limit error calls \<^verbatim>\<open>this.getRetryDelay()\<close> and
  \<^verbatim>\<open>this.sleep()\<close>; neither the class nor its base class defines them, so the handler
  itself throws a TypeError before any retry.
\<close>

definition noLastMessage :: string where
  "noLastMessage = ''Cannot read properties of undefined (reading 'parts')''"

definition google_generateCompletion ::
  "env \<Rightarrow> vendor \<Rightarrow> message list \<Rightarrow> options \<Rightarrow> trace \<Rightarrow> response promise \<times> trace" where
  "google_generateCompletion e v messages opts tr =
     (if \<not> isAvailable e Google then (Rejected (Error (notConfigured Google)), tr)
      else let params = google_params e messages opts;
               modelName = p_model params in
        if opt_stream opts \<and> opt_onStreamData opts then
          (if p_messages params = [] then
             (Rejected (TypeError noLastMessage), notify [Failed noLastMessage] tr)
           else let request = params\<lparr>p_stream := True\<rparr> in
             case chatStream v (length (calls tr)) request of
               Inl msg \<Rightarrow> (Rejected (Error msg), notify [Failed msg] (called request tr))
             | Inr (chunks, Some msg) \<Rightarrow>
                 (Rejected (Error msg), notify (map Chunk chunks @ [Failed msg]) (called request tr))
             | Inr (chunks, None) \<Rightarrow>
                 (Resolved \<lparr>content = Some (concat chunks), model = modelName, stream = None\<rparr>,
                  notify (map Chunk chunks @ [Done (concat chunks)]) (called request tr)))
        else if (case opt_tools opts of None \<Rightarrow> False | Some ts \<Rightarrow> ts \<noteq> []) then
          (if p_messages params = [] then
             (Rejected (Error (''Tool calling error: '' @ noLastMessage)), tr)
           else let request = params\<lparr>p_tools := opt_tools opts\<rparr> in
             case chat v (length (calls tr)) request of
               Inl msg \<Rightarrow> (Rejected (Error (''Tool calling error: '' @ msg)), called request tr)
             | Inr c \<Rightarrow>
                 (Resolved \<lparr>content = Some (v_content c), model = modelName, stream = None\<rparr>,
                  called request tr))
        else
          (case chat v (length (calls tr)) params of
             Inr c \<Rightarrow>
               (Resolved \<lparr>content = Some (v_content c), model = modelName, stream = None\<rparr>,
                called params tr)
           | Inl msg \<Rightarrow>
               (if google_rateLimited msg then
                  (Rejected (TypeError ''this.getRetryDelay is not a function''), called params tr)
                else (Rejected (Error msg), called params tr))))"

subsection \<open>Vertex AI\<close>

definition vertex_getSuggestedModels :: "string \<Rightarrow> string list" where
  "vertex_getSuggestedModels modelName =
     (if js_includes modelName ''gemini-2.5-pro'' then
        [''gemini-2.5-flash'', ''gemini-2.0-pro'', ''gemini-2.0-flash'']
      else if js_includes modelName ''gemini-2.5-flash'' then
        [''gemini-2.0-flash'', ''gemini-2.0-pro'', ''gemini-1.5-flash'']
      else if js_includes modelName ''gemini-2.0-pro'' then
        [''gemini-2.0-flash'', ''gemini-1.5-pro'', ''gemini-1.5-flash'']
      else if js_includes modelName ''gemini-2.0-flash'' then
        [''gemini-1.5-flash'', ''gemini-1.5-pro'']
      else if js_includes modelName ''gemini-1.5-pro'' then
        [''gemini-1.5-flash'', ''gemini-1.0-pro'']
      else [''gemini-2.5-flash'', ''gemini-2.0-flash'', ''gemini-1.5-flash''])"

definition vertex_modelName :: "env \<Rightarrow> options \<Rightarrow> string" where
  "vertex_modelName e opts = orDefault (opt_model opts) (vertex_defaultModel e)"

text \<open>
  \<^verbatim>\<open>JSON.stringify(options)\<close> leaves out the fields whose value is a function or
  \<^verbatim>\<open>undefined\<close>; it keeps a number \<open>0\<close>, so \<^verbatim>\<open>{temperature: 0}\<close> and \<^verbatim>\<open>{}\<close> have
  different keys.
\<close>

definition jsonKey :: "options \<Rightarrow> options" where
  "jsonKey opts = opts\<lparr>opt_onUpdate := False, opt_onStreamData := False\<rparr>"

text \<open>The generation configuration \<^verbatim>\<open>getModelInstance\<close> builds when the key is not cached.\<close>

definition vertex_generationConfig :: "env \<Rightarrow> options \<Rightarrow> generationConfig" where
  "vertex_generationConfig e opts =
     \<lparr>gc_temperature = numOrCfg (opt_temperature opts) (cfg e ''VERTEX_TEMPERATURE'') (7 / 10),
      gc_topP = numOrCfg (opt_top_p opts) (cfg e ''VERTEX_TOP_P'') (95 / 100),
      gc_topK = numOrCfg (opt_top_k opts) (cfg e ''VERTEX_TOP_K'') 40,
      gc_maxOutputTokens = numOrCfg (opt_max_tokens opts) (cfg e ''VERTEX_MAX_TOKENS'') 8192\<rparr>"

text \<open>
  \<^verbatim>\<open>getModelInstance(modelName, options)\<close> throws without a client, returns the cached
  instance of the key when there is one, whichever provider instance and configuration
  created it, and otherwise creates the instance from the options and the configuration of
  this provider and caches it. \<open>Inl\<close> is the message of the error it throws.
\<close>

definition getModelInstance ::
  "env \<Rightarrow> string \<Rightarrow> options \<Rightarrow> trace \<Rightarrow> string + generationConfig \<times> trace" where
  "getModelInstance e modelName opts tr =
     (if \<not> client tr then Inl ''Vertex AI client not initialized''
      else case map_of (modelCache tr) (modelName, jsonKey opts) of
             Some instance \<Rightarrow> Inr (instance, tr)
           | None \<Rightarrow>
               (let instance = vertex_generationConfig e opts in
                Inr (instance,
                     tr\<lparr>modelCache := modelCache tr @ [((modelName, jsonKey opts), instance)]\<rparr>)))"

text \<open>
  \<^verbatim>\<open>initializeClient\<close> creates the vendor client and, with it, the model instance of the
  default model and the options \<^verbatim>\<open>{}\<close>. Whether the vendor's constructors succeed is
  \<open>clientInit\<close> of the vendor; when they throw, the error is caught and no client is left.
\<close>

definition initializeClient :: "env \<Rightarrow> vendor \<Rightarrow> trace \<Rightarrow> trace" where
  "initializeClient e v tr =
     (if clientInit v then
        (case getModelInstance e (vertex_defaultModel e) noOptions (tr\<lparr>client := True\<rparr>) of
           Inl msg \<Rightarrow> tr\<lparr>client := False\<rparr>
         | Inr (instance, tr') \<Rightarrow> tr')
      else tr\<lparr>client := False\<rparr>)"

text \<open>
  The request \<^verbatim>\<open>model.generateContent({ contents, tools })\<close> of a model instance: the
  model name and the generation configuration are those of the instance.
\<close>

definition vertex_params :: "env \<Rightarrow> message list \<Rightarrow> options \<Rightarrow> generationConfig \<Rightarrow> params" where
  "vertex_params e messages opts instance =
     \<lparr>p_client = Sdk,
      p_model = Some (vertex_modelName e opts),
      p_system = None,
      p_messages = map geminiRole messages,
      p_max_tokens = gc_maxOutputTokens instance,
      p_temperature = gc_temperature instance,
      p_top_p = Some (gc_topP instance),
      p_top_k = Some (gc_topK instance),
      p_n = None,
      p_repetition_penalty = None,
      p_frequency_penalty = None,
      p_presence_penalty = None,
      p_tools =
        (case opt_tools opts of
           None \<Rightarrow> None
         | Some ts \<Rightarrow>
             if ts \<noteq> [] \<and> flag (vertex_getCapabilities e (vertex_modelName e opts)) ''function_calling''
             then Some ts else None),
      p_stream = False\<rparr>"

text \<open>
  The body of the \<^verbatim>\<open>try\<close> block: \<open>Inl\<close> is the message of the error it throws.
  \<open>vertex_generate\<close> is what follows \<^verbatim>\<open>const model = this.getModelInstance(modelName,
  options)\<close>, the request made with that model instance.
\<close>

definition vertex_generate ::
  "env \<Rightarrow> vendor \<Rightarrow> message list \<Rightarrow> options \<Rightarrow> generationConfig \<Rightarrow> trace
     \<Rightarrow> (string + response) \<times> trace" where
  "vertex_generate e v messages opts instance tr =
     (let params = vertex_params e messages opts instance;
          modelName = vertex_modelName e opts in
      if opt_stream opts \<and> opt_onUpdate opts then
        (let request = params\<lparr>p_stream := True\<rparr> in
         case chatStream v (length (calls tr)) request of
           Inl msg \<Rightarrow> (Inl msg, called request tr)
         | Inr (chunks, Some msg) \<Rightarrow> (Inl msg, notify (map Chunk chunks) (called request tr))
         | Inr (chunks, None) \<Rightarrow>
             (Inr \<lparr>content = Some (concat chunks), model = Some modelName, stream = None\<rparr>,
              notify (map Chunk chunks @ [Done []]) (called request tr)))
      else
        (case chat v (length (calls tr)) params of
           Inl msg \<Rightarrow> (Inl msg, called params tr)
         | Inr c \<Rightarrow>
             (Inr \<lparr>content = Some (v_content c), model = Some modelName, stream = None\<rparr>,
              called params tr)))"

definition vertex_try ::
  "env \<Rightarrow> vendor \<Rightarrow> message list \<Rightarrow> options \<Rightarrow> trace \<Rightarrow> (string + response) \<times> trace" where
  "vertex_try e v messages opts tr =
     (case getModelInstance e (vertex_modelName e opts) opts tr of
        Inl msg \<Rightarrow> (Inl msg, tr)
      | Inr (instance, tr') \<Rightarrow> vertex_generate e v messages opts instance tr')"

definition vertex_rateLimited :: "string \<Rightarrow> bool" where
  "vertex_rateLimited msg =
     (js_includes msg ''quota'' \<or> js_includes msg ''rate'' \<or> js_includes msg ''limit'')"

definition vertex_modelNotFound :: "string \<Rightarrow> bool" where
  "vertex_modelNotFound msg = (js_includes msg ''not found'' \<or> js_includes msg ''invalid model'')"

definition vertex_retryCount :: "options \<Rightarrow> nat" where
  "vertex_retryCount opts = (case opt_retryCount opts of None \<Rightarrow> 0 | Some n \<Rightarrow> n)"

text \<open>
  The retry is scheduled as
  \<^verbatim>\<open>new Promise((resolve) => { setTimeout(async () => { const result = await
  this.generateCompletion(messages, retryOptions); resolve(result); }, delay); })\<close>.
  The promise has no \<^verbatim>\<open>reject\<close>: when the retried call is fulfilled the promise is
  fulfilled with its result; when the retried call is rejected, the rejection ends in the
  timer callback with no handler and the promise is never settled.
\<close>

fun afterTimer :: "response promise \<times> trace \<Rightarrow> response promise \<times> trace" where
  "afterTimer (Resolved res, tr) = (Resolved res, tr)"
| "afterTimer (Rejected err, tr) = (Pending, tr\<lparr>unhandled := unhandled tr @ [err]\<rparr>)"
| "afterTimer (Pending, tr) = (Pending, tr)"

text \<open>
  \<^verbatim>\<open>if (!this.client) { await this.initializeClient(); ... }\<close>: the state in which the
  completion goes on after its first lines.
\<close>

definition vertex_ready :: "env \<Rightarrow> vendor \<Rightarrow> trace \<Rightarrow> trace" where
  "vertex_ready e v tr = (if client tr then tr else initializeClient e v tr)"

function vertex_generateCompletion ::
  "env \<Rightarrow> vendor \<Rightarrow> message list \<Rightarrow> options \<Rightarrow> trace \<Rightarrow> response promise \<times> trace" where
  "vertex_generateCompletion e v messages opts tr =
     (if \<not> isAvailable e Vertex then (Rejected (Error (notConfigured Vertex)), tr)
      else if \<not> client (vertex_ready e v tr) then
        (Rejected (Error ''Failed to initialize Vertex AI client.''), vertex_ready e v tr)
      else
        (case vertex_try e v messages opts (vertex_ready e v tr) of
           (Inr res, tr') \<Rightarrow> (Resolved res, tr')
         | (Inl msg, tr') \<Rightarrow>
             (if vertex_rateLimited msg \<and> vertex_retryCount opts < 3 then
                afterTimer
                  (vertex_generateCompletion e v messages
                     (opts\<lparr>opt_retryCount := Some (vertex_retryCount opts + 1)\<rparr>)
                     (tr'\<lparr>sleeps := sleeps tr' @ [2 ^ vertex_retryCount opts * 1000]\<rparr>))
              else if vertex_modelNotFound msg \<and> \<not> opt_triedFallback opts then
                (case vertex_getSuggestedModels (vertex_modelName e opts) of
                   [] \<Rightarrow> (Rejected (Error msg), tr')
                 | fallback # _ \<Rightarrow>
                     vertex_generateCompletion e v messages
                       (opts\<lparr>opt_model := Some fallback, opt_triedFallback := True\<rparr>) tr')
              else (Rejected (Error msg), tr'))))"
  by pat_completeness auto
termination
  by (relation "measure (\<lambda>(e, v, messages, opts, tr).
         (3 - vertex_retryCount opts) + (if opt_triedFallback opts then 0 else 1))")
     (auto simp: vertex_retryCount_def)

declare vertex_generateCompletion.simps [simp del]

subsection \<open>The completion of every provider\<close>

fun generateCompletion ::
  "env \<Rightarrow> vendor \<Rightarrow> adapter \<Rightarrow> message list \<Rightarrow> options \<Rightarrow> trace \<Rightarrow> response promise \<times> trace" where
  "generateCompletion e v OpenAI = openai_generateCompletion e v"
| "generateCompletion e v Anthropic = anthropic_generateCompletion e v"
| "generateCompletion e v Ollama = ollama_generateCompletion e v"
| "generateCompletion e v Azure = azure_generateCompletion e v"
| "generateCompletion e v Vertex = vertex_generateCompletion e v"
| "generateCompletion e v Google = google_generateCompletion e v"
| "generateCompletion e v LMStudio = lmstudio_generateCompletion e v"
| "generateCompletion e v HuggingFace = huggingface_generateCompletion e v"

text \<open>
  The state in which a provider makes its first vendor call, and the parameters it has
  computed by then. Only the Vertex provider changes the state before the call: it
  creates the client when there is none and takes the model instance from the cache.
\<close>

definition requestInstance :: "env \<Rightarrow> vendor \<Rightarrow> options \<Rightarrow> trace \<Rightarrow> generationConfig \<times> trace" where
  "requestInstance e v opts tr =
     (case getModelInstance e (vertex_modelName e opts) opts (vertex_ready e v tr) of
        Inl msg \<Rightarrow> (vertex_generationConfig e opts, vertex_ready e v tr)
      | Inr result \<Rightarrow> result)"

fun requestState :: "env \<Rightarrow> vendor \<Rightarrow> adapter \<Rightarrow> options \<Rightarrow> trace \<Rightarrow> trace" where
  "requestState e v Vertex opts tr = snd (requestInstance e v opts tr)"
| "requestState e v a opts tr = tr"

fun completionParams ::
  "env \<Rightarrow> vendor \<Rightarrow> adapter \<Rightarrow> message list \<Rightarrow> options \<Rightarrow> trace \<Rightarrow> params" where
  "completionParams e v OpenAI messages opts tr = openai_params messages opts"
| "completionParams e v Anthropic messages opts tr = anthropic_params messages opts"
| "completionParams e v Ollama messages opts tr = ollama_params e messages opts"
| "completionParams e v Azure messages opts tr = azure_params e messages opts"
| "completionParams e v Vertex messages opts tr =
     vertex_params e messages opts (fst (requestInstance e v opts tr))"
| "completionParams e v Google messages opts tr = google_params e messages opts"
| "completionParams e v LMStudio messages opts tr = lmstudio_params e messages opts"
| "completionParams e v HuggingFace messages opts tr = huggingface_params messages opts"

section \<open>The provider manager\<close>

text \<open>
  \<^verbatim>\<open>loadProviders\<close> reads the provider directory. An entry of the listing is a file name
  with the class its module exports, or \<open>None\<close> when requiring the module or constructing
  the class throws (the error is caught and logged). The table \<^verbatim>\<open>providers\<close> is a plain
  object keyed by provider name; \<^verbatim>\<open>for ... in\<close> walks its keys in insertion order, and
  assigning to a key that is already there keeps the key's place. Every instance is built
  from the same configuration, so the table is the list of the classes in the order of
  their first registration.
\<close>

type_synonym directory = "(string \<times> adapter option) list"

definition register :: "adapter \<Rightarrow> adapter list \<Rightarrow> adapter list" where
  "register a ps = (if a \<in> set ps then ps else ps @ [a])"

fun loadFrom :: "directory \<Rightarrow> adapter list \<Rightarrow> adapter list" where
  "loadFrom [] ps = ps"
| "loadFrom ((file, cls) # rest) ps =
     (if suffix ''.js'' file \<and> file \<noteq> ''base-provider.js'' then
        (case cls of
           None \<Rightarrow> loadFrom rest ps
         | Some a \<Rightarrow> if truthy (Some (getName a)) then loadFrom rest (register a ps)
                     else loadFrom rest ps)
      else loadFrom rest ps)"

definition loadProviders :: "directory \<Rightarrow> adapter list" where
  "loadProviders dir = loadFrom dir []"

text \<open>
  \<^verbatim>\<open>this.providers[key]\<close> on a plain object finds an own property, or one of the
  properties every object inherits from \<^verbatim>\<open>Object.prototype\<close>, or nothing.
\<close>

definition objectPrototypeKeys :: "string list" where
  "objectPrototypeKeys =
     [''constructor'', ''__defineGetter__'', ''__defineSetter__'', ''hasOwnProperty'',
      ''__lookupGetter__'', ''__lookupSetter__'', ''isPrototypeOf'', ''propertyIsEnumerable'',
      ''toString'', ''valueOf'', ''__proto__'', ''toLocaleString'']"

datatype property = Own adapter | Inherited | Missing

definition getProperty :: "adapter list \<Rightarrow> string \<Rightarrow> property" where
  "getProperty ps key =
     (case find (\<lambda>a. getName a = key) ps of
        Some a \<Rightarrow> Own a
      | None \<Rightarrow> if key \<in> set objectPrototypeKeys then Inherited else Missing)"

text \<open>
  \<open>preferred\<close> is what \<^verbatim>\<open>this.configManager.get('AI_PROVIDER')\<close> returns. An inherited
  property is truthy and has no \<^verbatim>\<open>isAvailable\<close> method, so calling it throws.
\<close>

definition determineActiveProvider ::
  "env \<Rightarrow> string option \<Rightarrow> adapter list \<Rightarrow> error + adapter option" where
  "determineActiveProvider e preferred ps =
     (let autoDetect = Inr (find (isAvailable e) ps) in
      if truthy preferred then
        (case getProperty ps (orDefault preferred []) of
           Own a \<Rightarrow> if isAvailable e a then Inr (Some a) else autoDetect
         | Inherited \<Rightarrow>
             Inl (TypeError ''this.providers[preferredProvider].isAvailable is not a function'')
         | Missing \<Rightarrow> autoDetect)
      else autoDetect)"

record providerManager =
  providers :: "adapter list"
  activeProvider :: "adapter option"
  pm_isAvailable :: bool

definition newProviderManager :: "env \<Rightarrow> string option \<Rightarrow> directory \<Rightarrow> error + providerManager" where
  "newProviderManager e preferred dir =
     (let ps = loadProviders dir in
      case determineActiveProvider e preferred ps of
        Inl err \<Rightarrow> Inl err
      | Inr active \<Rightarrow>
          Inr \<lparr>providers = ps, activeProvider = active, pm_isAvailable = (active \<noteq> None)\<rparr>)"

text \<open>
  \<^verbatim>\<open>getProvider\<close> returns the active provider, or the dummy object literal when the
  manager is not available. \<open>NoObject\<close> is \<^verbatim>\<open>null\<close>, which the constructor never
  leaves in an available manager.
\<close>

datatype provider = Dummy | Real adapter | NoObject

definition getProvider :: "providerManager \<Rightarrow> provider" where
  "getProvider m =
     (if \<not> pm_isAvailable m then Dummy
      else case activeProvider m of None \<Rightarrow> NoObject | Some a \<Rightarrow> Real a)"

text \<open>The four functions of the dummy object; they are synchronous and ignore their arguments.\<close>

record connectionTest =
  success :: bool
  test_error :: "string option"

definition dummy_generateCompletion :: "error + response promise \<times> trace" where
  "dummy_generateCompletion = Inl (Error ''No AI provider configured.'')"

definition dummy_getModelRecommendation :: "error + recommendation" where
  "dummy_getModelRecommendation =
     Inr \<lparr>rec_model = ''rule-based'', reason = ''No AI provider configured.''\<rparr>"

definition dummy_testConnection :: "error + connectionTest" where
  "dummy_testConnection = Inr \<lparr>success = False, test_error = Some ''No AI provider configured.''\<rparr>"

definition dummy_getCapabilities :: "error + capabilities" where
  "dummy_getCapabilities = Inr []"

text \<open>
  \<^verbatim>\<open>testConnection\<close> of a provider class first returns a failure of its own wording when
  the provider is not configured. Otherwise it sends a test request and reports what came
  of it, catching every error; that report depends on the vendor alone and is the
  parameter \<open>probe\<close>.
\<close>

fun credentialsMissing :: "adapter \<Rightarrow> string" where
  "credentialsMissing OpenAI = ''OpenAI API key not provided.''"
| "credentialsMissing Anthropic = ''Anthropic API key not provided.''"
| "credentialsMissing Ollama = ''Ollama host not provided.''"
| "credentialsMissing Azure = ''Azure OpenAI credentials not provided.''"
| "credentialsMissing Vertex = ''Vertex AI credentials not provided.''"
| "credentialsMissing Google = ''Google API key not provided.''"
| "credentialsMissing LMStudio = ''LM Studio API base URL not provided.''"
| "credentialsMissing HuggingFace = ''Hugging Face API key not provided.''"

definition testConnection :: "env \<Rightarrow> (adapter \<Rightarrow> connectionTest) \<Rightarrow> adapter \<Rightarrow> connectionTest" where
  "testConnection e probe a =
     (if \<not> isAvailable e a then \<lparr>success = False, test_error = Some (credentialsMissing a)\<rparr>
      else probe a)"

text \<open>
  A call of a method on the object \<^verbatim>\<open>getProvider()\<close> returned. \<open>Inl\<close> is an error thrown
  by the call itself, before any promise exists. A completion of a provider class starts
  in the state \<open>tr\<close>; the dummy has no state.
\<close>

definition nullCall :: error where
  "nullCall = TypeError ''Cannot read properties of null''"

fun provider_generateCompletion ::
  "env \<Rightarrow> vendor \<Rightarrow> provider \<Rightarrow> message list \<Rightarrow> options \<Rightarrow> trace
     \<Rightarrow> error + response promise \<times> trace" where
  "provider_generateCompletion e v Dummy messages opts tr = dummy_generateCompletion"
| "provider_generateCompletion e v (Real a) messages opts tr =
     Inr (generateCompletion e v a messages opts tr)"
| "provider_generateCompletion e v NoObject messages opts tr = Inl nullCall"

fun provider_getModelRecommendation :: "env \<Rightarrow> provider \<Rightarrow> commitDetails \<Rightarrow> error + recommendation" where
  "provider_getModelRecommendation e Dummy d = dummy_getModelRecommendation"
| "provider_getModelRecommendation e (Real a) d = Inr (getModelRecommendation e a d)"
| "provider_getModelRecommendation e NoObject d = Inl nullCall"

fun provider_getCapabilities :: "env \<Rightarrow> provider \<Rightarrow> string \<Rightarrow> error + capabilities" where
  "provider_getCapabilities e Dummy m = dummy_getCapabilities"
| "provider_getCapabilities e (Real a) m = getCapabilities e a m"
| "provider_getCapabilities e NoObject m = Inl nullCall"

fun provider_testConnection ::
  "env \<Rightarrow> (adapter \<Rightarrow> connectionTest) \<Rightarrow> provider \<Rightarrow> error + connectionTest" where
  "provider_testConnection e probe Dummy = dummy_testConnection"
| "provider_testConnection e probe (Real a) = Inr (testConnection e probe a)"
| "provider_testConnection e probe NoObject = Inl nullCall"

text \<open>
  The completion entry point of the subsystem: a manager is constructed, and the
  completion of the provider it returns is called. An error thrown by the constructor
  reaches the caller.
\<close>

definition managedCompletion ::
  "env \<Rightarrow> string option \<Rightarrow> directory \<Rightarrow> vendor \<Rightarrow> message list \<Rightarrow> options \<Rightarrow> trace
     \<Rightarrow> error + response promise \<times> trace" where
  "managedCompletion e preferred dir v messages opts tr =
     (case newProviderManager e preferred dir of
        Inl err \<Rightarrow> Inl err
      | Inr m \<Rightarrow> provider_generateCompletion e v (getProvider m) messages opts tr)"

text \<open>The \<^verbatim>\<open>name\<close> and the \<^verbatim>\<open>message\<close> of an error object.\<close>

fun errorName :: "error \<Rightarrow> string" where
  "errorName (Error msg) = ''Error''"
| "errorName (TypeError msg) = ''TypeError''"

fun errorMessage :: "error \<Rightarrow> string" where
  "errorMessage (Error msg) = msg"
| "errorMessage (TypeError msg) = msg"

section \<open>Example inputs\<close>

text \<open>Concrete configurations, requests and vendors on which the theorems below are run.\<close>

definition configured :: "(string \<times> string) list \<Rightarrow> env" where
  "configured kvs = \<lparr>cfg = map_of kvs, process_env = Map.empty\<rparr>"

definition userHi :: "message list" where
  "userHi = [\<lparr>role = ''user'', msg_content = ''hi''\<rparr>]"

text \<open>A vendor that answers every call, echoing the requested model.\<close>

definition helloVendor :: vendor where
  "helloVendor =
     \<lparr>clientInit = True,
      chat = (\<lambda>n p. Inr \<lparr>v_content = ''Hello'', v_model = orDefault (p_model p) []\<rparr>),
      chatStream = (\<lambda>n p. Inr ([''Hel'', ''lo''], None)),
      predict = (\<lambda>n p. Inr \<lparr>generated_text = Some ''Hello'', outputs = None, ep_text = None\<rparr>)\<rparr>"

text \<open>A vendor whose every call throws an error with the given message.\<close>

definition failingVendor :: "string \<Rightarrow> vendor" where
  "failingVendor msg =
     \<lparr>clientInit = True,
      chat = (\<lambda>n p. Inl msg),
      chatStream = (\<lambda>n p. Inl msg),
      predict = (\<lambda>n p. Inl msg)\<rparr>"

text \<open>A vendor that knows a single model and rejects every other one.\<close>

definition onlyModelVendor :: "string \<Rightarrow> vendor" where
  "onlyModelVendor known =
     \<lparr>clientInit = True,
      chat = (\<lambda>n p. if p_model p = Some known
                      then Inr \<lparr>v_content = ''Hello'', v_model = known\<rparr>
                      else Inl ''model not found''),
      chatStream = (\<lambda>n p. if p_model p = Some known then Inr ([''Hel'', ''lo''], None)
                            else Inl ''model not found''),
      predict = (\<lambda>n p. Inl ''model not found'')\<rparr>"

definition localAndHosted :: env where
  "localAndHosted =
     configured [(''OLLAMA_HOST'', ''http://localhost:11434''), (''OPENAI_API_KEY'', ''sk-test'')]"

text \<open>A provider directory with one file for each class, in alphabetical order.\<close>

definition providerFiles :: directory where
  "providerFiles =
     [(''anthropic.js'', Some Anthropic), (''azure.js'', Some Azure),
      (''base-provider.js'', None), (''google.js'', Some Google),
      (''huggingface.js'', Some HuggingFace), (''lmstudio.js'', Some LMStudio),
      (''ollama.js'', Some Ollama), (''openai.js'', Some OpenAI), (''vertex.js'', Some Vertex)]"

definition azureOnly :: env where
  "azureOnly = configured [(''AZURE_OPENAI_ENDPOINT'', ''https://example.openai.azure.com''),
                           (''AZURE_OPENAI_KEY'', ''key'')]"

definition vertexOnly :: env where
  "vertexOnly = configured [(''VERTEX_PROJECT_ID'', ''my-project''), (''VERTEX_KEY_FILE'', ''key.json'')]"

definition googleOnly :: env where
  "googleOnly = configured [(''GOOGLE_API_KEY'', ''key'')]"

definition openaiOnly :: env where
  "openaiOnly = configured [(''OPENAI_API_KEY'', ''sk-test'')]"

definition lmstudioOnly :: env where
  "lmstudioOnly = configured [(''LMSTUDIO_API_BASE'', ''http://localhost:1234/v1'')]"

text \<open>Vertex configurations that set \<^verbatim>\<open>VERTEX_TEMPERATURE\<close>.\<close>

definition vertexWith :: "string \<Rightarrow> env" where
  "vertexWith temperature =
     configured [(''VERTEX_PROJECT_ID'', ''my-project''), (''VERTEX_KEY_FILE'', ''key.json''),
                 (''VERTEX_TEMPERATURE'', temperature)]"

section \<open>Notions used in the proofs\<close>

text \<open>
  The object literal each \<^verbatim>\<open>getCapabilities\<close> starts from, and whether any of its
  outermost substring rules matches the model name.
\<close>

definition baseCapabilities :: "adapter \<Rightarrow> capabilities" where
  "baseCapabilities a =
     (case a of
        OpenAI \<Rightarrow> openai_base | Anthropic \<Rightarrow> anthropic_base | Ollama \<Rightarrow> ollama_base
      | Azure \<Rightarrow> azure_base | Vertex \<Rightarrow> gemini_base | Google \<Rightarrow> gemini_base
      | LMStudio \<Rightarrow> lmstudio_base | HuggingFace \<Rightarrow> huggingface_base)"

fun ruleMatches :: "adapter \<Rightarrow> string \<Rightarrow> bool" where
  "ruleMatches OpenAI m =
     (js_includes m ''gpt-4o'' \<or> js_includes m ''o1'' \<or> js_includes m ''gpt-4.1'')"
| "ruleMatches Anthropic m =
     (js_includes m ''claude-4'' \<or> js_includes m ''claude-3.5'' \<or> js_includes m ''claude-3'')"
| "ruleMatches Ollama m =
     (js_includes m ''llama3'' \<or> js_includes m ''codellama'' \<or> js_includes m ''mistral'' \<or>
      js_includes m ''vision'' \<or> js_includes m ''llava'')"
| "ruleMatches Azure m =
     (js_includes m ''o3'' \<or> js_includes m ''o4'' \<or> js_includes m ''gpt-4o'' \<or>
      js_includes m ''gpt-4.1'')"
| "ruleMatches Vertex m =
     (js_includes m ''gemini-2.5'' \<or> js_includes m ''gemini-2.0'' \<or>
      js_includes m ''gemini-1.5'' \<or> js_includes m ''gemini-1.0'')"
| "ruleMatches Google m =
     (js_includes m ''gemini-2.5'' \<or> js_includes m ''gemini-2.0'' \<or> js_includes m ''gemini-1.5'')"
| "ruleMatches LMStudio m =
     (js_includes (toLowerCase m) ''llama'' \<or> js_includes (toLowerCase m) ''mistral'' \<or>
      js_includes (toLowerCase m) ''vision'' \<or> js_includes (toLowerCase m) ''llava'' \<or>
      js_includes (toLowerCase m) ''bakllava'')"
| "ruleMatches HuggingFace m =
     (js_includes m ''Llama-3.1'' \<or> js_includes m ''Mixtral'' \<or> js_includes m ''Mistral'' \<or>
      js_includes m ''zephyr'')"

text \<open>The classes of a directory listing that \<^verbatim>\<open>loadProviders\<close> instantiates, file by file.\<close>

definition loadable :: "directory \<Rightarrow> adapter list" where
  "loadable dir =
     concat (map (\<lambda>(file, cls).
        case cls of
          None \<Rightarrow> []
        | Some a \<Rightarrow> if suffix ''.js'' file \<and> file \<noteq> ''base-provider.js'' then [a] else []) dir)"

text \<open>
  The Vertex provider calls itself with a larger retry count or with the fallback flag set;
  the number of such steps that are still possible bounds the recursion.
\<close>

definition retryBudget :: "options \<Rightarrow> nat" where
  "retryBudget opts = (3 - vertex_retryCount opts) + (if opt_triedFallback opts then 0 else 1)"

text \<open>
  A numeric option is only ever read through \<^verbatim>\<open>||\<close>, where \<open>0\<close> and
  \<^verbatim>\<open>undefined\<close> are alike. Two option objects are the same request for the Vertex
  provider when they agree on every field it reads; \<open>dropZeros\<close> is the request that leaves
  out every numeric option that is \<open>0\<close>.
\<close>

definition nonZero :: "rat option \<Rightarrow> rat option" where
  "nonZero x = (case x of None \<Rightarrow> None | Some r \<Rightarrow> if r = 0 then None else Some r)"

definition sameRequest :: "options \<Rightarrow> options \<Rightarrow> bool" where
  "sameRequest a b =
     (opt_model a = opt_model b \<and>
      nonZero (opt_max_tokens a) = nonZero (opt_max_tokens b) \<and>
      nonZero (opt_temperature a) = nonZero (opt_temperature b) \<and>
      nonZero (opt_top_p a) = nonZero (opt_top_p b) \<and>
      nonZero (opt_top_k a) = nonZero (opt_top_k b) \<and>
      opt_tools a = opt_tools b \<and> opt_stream a = opt_stream b \<and>
      opt_onUpdate a = opt_onUpdate b \<and> opt_retryCount a = opt_retryCount b \<and>
      opt_triedFallback a = opt_triedFallback b)"

definition dropZeros :: "options \<Rightarrow> options" where
  "dropZeros opts =
     opts\<lparr>opt_max_tokens := nonZero (opt_max_tokens opts),
          opt_temperature := nonZero (opt_temperature opts),
          opt_top_p := nonZero (opt_top_p opts),
          opt_top_k := nonZero (opt_top_k opts),
          opt_n := nonZero (opt_n opts),
          opt_repetition_penalty := nonZero (opt_repetition_penalty opts),
          opt_frequency_penalty := nonZero (opt_frequency_penalty opts),
          opt_presence_penalty := nonZero (opt_presence_penalty opts)\<rparr>"

text \<open>
  A state without its model cache: what the caller, the vendor and the provider instance
  can see of it. Every instance of a cache was built by the configuration \<open>e\<close> when it is
  the generation configuration that \<open>e\<close> gives for the options of its key.
\<close>

definition forgetCache :: "trace \<Rightarrow> trace" where
  "forgetCache tr = tr\<lparr>modelCache := []\<rparr>"

definition cacheBuiltBy :: "env \<Rightarrow> trace \<Rightarrow> bool" where
  "cacheBuiltBy e tr =
     list_all (\<lambda>(key, instance). instance = vertex_generationConfig e (snd key)) (modelCache tr)"

text \<open>
  The value each provider's source puts after \<^verbatim>\<open>options.temperature ||\<close> and after
  \<^verbatim>\<open>options.max_tokens ||\<close>: a literal, for Vertex the configuration string when it is
  set and a literal otherwise.
\<close>

fun defaultTemperature :: "env \<Rightarrow> adapter \<Rightarrow> jsval" where
  "defaultTemperature e OpenAI = JNum (3 / 10)"
| "defaultTemperature e Anthropic = JNum (3 / 10)"
| "defaultTemperature e Ollama = JNum (7 / 10)"
| "defaultTemperature e Azure = JNum (3 / 10)"
| "defaultTemperature e Vertex =
     (if truthy (cfg e ''VERTEX_TEMPERATURE'') then JStr (orDefault (cfg e ''VERTEX_TEMPERATURE'') [])
      else JNum (7 / 10))"
| "defaultTemperature e Google = JNum (4 / 10)"
| "defaultTemperature e LMStudio = JNum (7 / 10)"
| "defaultTemperature e HuggingFace = JNum (5 / 10)"

fun defaultMaxTokens :: "env \<Rightarrow> adapter \<Rightarrow> jsval" where
  "defaultMaxTokens e OpenAI = JNum 1000"
| "defaultMaxTokens e Anthropic = JNum 4096"
| "defaultMaxTokens e Ollama = JNum 1024"
| "defaultMaxTokens e Azure = JNum 1000"
| "defaultMaxTokens e Vertex =
     (if truthy (cfg e ''VERTEX_MAX_TOKENS'') then JStr (orDefault (cfg e ''VERTEX_MAX_TOKENS'') [])
      else JNum 8192)"
| "defaultMaxTokens e Google = JNum 8192"
| "defaultMaxTokens e LMStudio = JNum 2048"
| "defaultMaxTokens e HuggingFace = JNum 4096"

text \<open>What \<^verbatim>\<open>options.x || d\<close> evaluates to for a numeric option \<open>x\<close>.\<close>

definition orLiteral :: "rat option \<Rightarrow> jsval \<Rightarrow> jsval" where
  "orLiteral x d = (case nonZero x of None \<Rightarrow> d | Some r \<Rightarrow> JNum r)"

text \<open>The vendor calls a completion added to those of the state it started in.\<close>

definition newCalls :: "trace \<Rightarrow> 'a \<times> trace \<Rightarrow> params list" where
  "newCalls tr result = drop (length (calls tr)) (calls (snd result))"

section \<open>Unconfigured providers\<close>

lemmas simple_completion_defs =
  openai_generateCompletion_def anthropic_generateCompletion_def
  ollama_generateCompletion_def azure_generateCompletion_def google_generateCompletion_def
  lmstudio_generateCompletion_def huggingface_generateCompletion_def

text \<open>
  Claim C7. A provider of any of the eight classes that was constructed with the empty
  configuration object reports \<^verbatim>\<open>isAvailable() = false\<close>, and its
  \<^verbatim>\<open>generateCompletion\<close> is rejected with the provider's not-configured error; the
  trace is unchanged, so no vendor call was attempted. This holds whatever the process
  environment, the vendor, the messages and the options are.
\<close>

theorem unconfigured_provider_rejects:
  "isAvailable \<lparr>cfg = Map.empty, process_env = penv\<rparr> a = False \<and>
   generateCompletion \<lparr>cfg = Map.empty, process_env = penv\<rparr> v a messages opts tr
     = (Rejected (Error (notConfigured a)), tr)"
  by (cases a) (simp_all add: truthy_def simple_completion_defs vertex_generateCompletion.simps)

theorem unconfigured_provider_rejects_witness:
  "isAvailable \<lparr>cfg = Map.empty, process_env = Map.empty\<rparr> HuggingFace = False \<and>
   generateCompletion \<lparr>cfg = Map.empty, process_env = Map.empty\<rparr> helloVendor HuggingFace
       userHi noOptions emptyTrace
     = (Rejected (Error ''Hugging Face provider is not configured.''), emptyTrace)"
  using unconfigured_provider_rejects [of Map.empty HuggingFace helloVendor userHi noOptions emptyTrace]
  by simp

section \<open>Monotone model recommendation\<close>

text \<open>Each decision table, read as a function from the commit to the tier of its answer.\<close>

lemma tier_openai:
  "tier (openai_getModelRecommendation d) =
     (if breaking d \<or> complex d \<or> files d > 20 then 4
      else if lines d > 1000 \<or> files d > 10 then 3
      else if lines d < 200 then 0 else 1)"
  by (simp add: tier_def openai_getModelRecommendation_def)

lemma tier_anthropic:
  "tier (anthropic_getModelRecommendation d) =
     (if breaking d \<or> complex d then 4
      else if lines d > 1000 \<or> files d > 30 then 3
      else if lines d > 500 \<or> files d > 15 then 2
      else if lines d > 200 \<or> files d > 8 then 1 else 0)"
  by (simp add: tier_def anthropic_getModelRecommendation_def)

lemma tier_azure:
  "tier (azure_getModelRecommendation d) =
     (if breaking d \<or> complex d then 4
      else if lines d > 1000 \<or> files d > 25 then 3
      else if lines d > 500 \<or> files d > 15 then 2
      else if lines d > 200 \<or> files d > 8 then 1 else 0)"
  by (simp add: tier_def azure_getModelRecommendation_def)

lemma tier_gemini:
  "tier (gemini_getModelRecommendation d) =
     (if breaking d \<or> complex d then 4
      else if lines d > 1500 \<or> files d > 30 then 3
      else if lines d > 800 \<or> files d > 20 then 2
      else if lines d > 300 \<or> files d > 10 then 1 else 0)"
  by (simp add: tier_def gemini_getModelRecommendation_def)

lemma tier_huggingface:
  "tier (huggingface_getModelRecommendation d) =
     (if breaking d \<or> complex d then 4
      else if lines d > 1000 \<or> files d > 25 then 3
      else if lines d > 500 \<or> files d > 15 then 2
      else if lines d > 200 \<or> files d > 8 then 1 else 0)"
  by (simp add: tier_def huggingface_getModelRecommendation_def)

lemma tier_local:
  "tier (ollama_getModelRecommendation e d) = 0"
  "tier (lmstudio_getModelRecommendation e d) = 0"
  by (simp_all add: tier_def ollama_getModelRecommendation_def lmstudio_getModelRecommendation_def)

text \<open>
  Claim C8. For every provider and any two commits with the same \<^verbatim>\<open>breaking\<close> and
  \<^verbatim>\<open>complex\<close> flags, if the second commit has at least as many files and at least as
  many lines as the first, the tier recommended for the second is not smaller than the
  tier recommended for the first.
\<close>

theorem getModelRecommendation_monotone:
  assumes "breaking d = breaking d'" and "complex d = complex d'"
    and "files d \<le> files d'" and "lines d \<le> lines d'"
  shows "tier (getModelRecommendation e a d) \<le> tier (getModelRecommendation e a d')"
proof (cases a)
  case OpenAI
  with assms show ?thesis
    by (simp only: getModelRecommendation.simps tier_openai) (auto split: if_splits)
next
  case Anthropic
  with assms show ?thesis
    by (simp only: getModelRecommendation.simps tier_anthropic) (auto split: if_splits)
next
  case Ollama
  then show ?thesis by (simp add: tier_local)
next
  case Azure
  with assms show ?thesis
    by (simp only: getModelRecommendation.simps tier_azure) (auto split: if_splits)
next
  case Vertex
  with assms show ?thesis
    by (simp only: getModelRecommendation.simps tier_gemini) (auto split: if_splits)
next
  case Google
  with assms show ?thesis
    by (simp only: getModelRecommendation.simps tier_gemini) (auto split: if_splits)
next
  case LMStudio
  then show ?thesis by (simp add: tier_local)
next
  case HuggingFace
  with assms show ?thesis
    by (simp only: getModelRecommendation.simps tier_huggingface) (auto split: if_splits)
qed

theorem getModelRecommendation_monotone_witness:
  "breaking \<lparr>breaking = False, complex = False, lines = 150, files = 2\<rparr>
     = breaking \<lparr>breaking = False, complex = False, lines = 1200, files = 12\<rparr> \<and>
   complex \<lparr>breaking = False, complex = False, lines = 150, files = 2\<rparr>
     = complex \<lparr>breaking = False, complex = False, lines = 1200, files = 12\<rparr> \<and>
   files \<lparr>breaking = False, complex = False, lines = 150, files = 2\<rparr>
     \<le> files \<lparr>breaking = False, complex = False, lines = 1200, files = 12\<rparr> \<and>
   lines \<lparr>breaking = False, complex = False, lines = 150, files = 2\<rparr>
     \<le> lines \<lparr>breaking = False, complex = False, lines = 1200, files = 12\<rparr> \<and>
   tier (getModelRecommendation (configured []) OpenAI
           \<lparr>breaking = False, complex = False, lines = 150, files = 2\<rparr>)
     \<le> tier (getModelRecommendation (configured []) OpenAI
           \<lparr>breaking = False, complex = False, lines = 1200, files = 12\<rparr>)"
  using getModelRecommendation_monotone
    [of "\<lparr>breaking = False, complex = False, lines = 150, files = 2\<rparr>"
        "\<lparr>breaking = False, complex = False, lines = 1200, files = 12\<rparr>"
        "configured []" OpenAI]
  by simp


section \<open>The state of the Vertex provider\<close>

lemma jsonKey_config [simp]: "vertex_generationConfig e (jsonKey opts) = vertex_generationConfig e opts"
  by (simp add: vertex_generationConfig_def jsonKey_def)

lemma forgetCache_simps [simp]:
  "calls (forgetCache tr) = calls tr" "sleeps (forgetCache tr) = sleeps tr"
  "updates (forgetCache tr) = updates tr" "unhandled (forgetCache tr) = unhandled tr"
  "client (forgetCache tr) = client tr"
  by (simp_all add: forgetCache_def)

lemma forgetCache_eq:
  "forgetCache s = forgetCache t \<longleftrightarrow>
     calls s = calls t \<and> sleeps s = sleeps t \<and> updates s = updates t \<and>
     unhandled s = unhandled t \<and> client s = client t"
  by (cases s, cases t) (simp add: forgetCache_def)

lemma cacheBuiltBy_simps [simp]:
  "cacheBuiltBy e (called p tr) = cacheBuiltBy e tr"
  "cacheBuiltBy e (notify us tr) = cacheBuiltBy e tr"
  "cacheBuiltBy e (tr\<lparr>sleeps := sl\<rparr>) = cacheBuiltBy e tr"
  "cacheBuiltBy e (tr\<lparr>unhandled := un\<rparr>) = cacheBuiltBy e tr"
  "cacheBuiltBy e (tr\<lparr>client := c\<rparr>) = cacheBuiltBy e tr"
  by (simp_all add: cacheBuiltBy_def called_def notify_def)

lemma getModelInstance_client:
  assumes "client tr"
  obtains inst tr' where "getModelInstance e m opts tr = Inr (inst, tr')"
    "forgetCache tr' = forgetCache tr"
    "cacheBuiltBy e tr \<Longrightarrow> inst = vertex_generationConfig e opts \<and> cacheBuiltBy e tr'"
proof (cases "map_of (modelCache tr) (m, jsonKey opts)")
  case None
  with assms show ?thesis
    by (intro that [of "vertex_generationConfig e opts"
          "tr\<lparr>modelCache := modelCache tr @ [((m, jsonKey opts), vertex_generationConfig e opts)]\<rparr>"])
       (simp_all add: getModelInstance_def cacheBuiltBy_def Let_def forgetCache_def)
next
  case (Some inst)
  then have "((m, jsonKey opts), inst) \<in> set (modelCache tr)" by (rule map_of_SomeD)
  then have "cacheBuiltBy e tr \<Longrightarrow> inst = vertex_generationConfig e opts"
    by (auto simp: cacheBuiltBy_def list_all_iff)
  with assms Some show ?thesis
    by (intro that [of inst tr]) (simp_all add: getModelInstance_def)
qed

lemma initializeClient_state:
  "forgetCache (initializeClient e v tr) = forgetCache (tr\<lparr>client := clientInit v\<rparr>)"
  "cacheBuiltBy e tr \<Longrightarrow> cacheBuiltBy e (initializeClient e v tr)"
proof -
  have "client (tr\<lparr>client := True\<rparr>)" by simp
  then obtain inst tr' where
    "getModelInstance e (vertex_defaultModel e) noOptions (tr\<lparr>client := True\<rparr>) = Inr (inst, tr')"
    "forgetCache tr' = forgetCache (tr\<lparr>client := True\<rparr>)"
    "cacheBuiltBy e (tr\<lparr>client := True\<rparr>) \<Longrightarrow>
       inst = vertex_generationConfig e noOptions \<and> cacheBuiltBy e tr'"
    by (rule getModelInstance_client
          [where e = e and m = "vertex_defaultModel e" and opts = noOptions]) blast
  then show "forgetCache (initializeClient e v tr) = forgetCache (tr\<lparr>client := clientInit v\<rparr>)"
    and "cacheBuiltBy e tr \<Longrightarrow> cacheBuiltBy e (initializeClient e v tr)"
    by (simp_all add: initializeClient_def)
qed

lemma vertex_ready_state:
  "forgetCache (vertex_ready e v tr) = forgetCache (tr\<lparr>client := client tr \<or> clientInit v\<rparr>)"
  "cacheBuiltBy e tr \<Longrightarrow> cacheBuiltBy e (vertex_ready e v tr)"
  using initializeClient_state(1) [of e v tr]
  by (simp_all add: vertex_ready_def initializeClient_state(2) forgetCache_eq)

lemma vertex_ready_simps [simp]:
  "client (vertex_ready e v tr) \<longleftrightarrow> client tr \<or> clientInit v"
  "calls (vertex_ready e v tr) = calls tr" "sleeps (vertex_ready e v tr) = sleeps tr"
  "updates (vertex_ready e v tr) = updates tr" "unhandled (vertex_ready e v tr) = unhandled tr"
  using vertex_ready_state(1) [of e v tr] by (simp_all add: forgetCache_eq)

lemma vertex_ready_idem [simp]: "client tr \<Longrightarrow> vertex_ready e v tr = tr"
  by (simp add: vertex_ready_def)

lemma vertex_generate_state:
  "calls (snd (vertex_generate e v messages opts inst tr))
     = calls tr @ [(vertex_params e messages opts inst)\<lparr>p_stream := opt_stream opts \<and> opt_onUpdate opts\<rparr>]"
  "sleeps (snd (vertex_generate e v messages opts inst tr)) = sleeps tr"
  "unhandled (snd (vertex_generate e v messages opts inst tr)) = unhandled tr"
  "client (snd (vertex_generate e v messages opts inst tr)) = client tr"
  "modelCache (snd (vertex_generate e v messages opts inst tr)) = modelCache tr"
  by (auto simp: vertex_generate_def Let_def called_def notify_def vertex_params_def
      split: sum.splits prod.splits option.splits)

lemma vertex_generate_forgetCache:
  assumes "forgetCache s = forgetCache t"
  shows "fst (vertex_generate e v messages opts inst s) = fst (vertex_generate e v messages opts inst t)"
    and "forgetCache (snd (vertex_generate e v messages opts inst s))
       = forgetCache (snd (vertex_generate e v messages opts inst t))"
  using assms
  by (auto simp: vertex_generate_def Let_def called_def notify_def forgetCache_eq
      split: sum.splits prod.splits option.splits)


section \<open>The steps of the Vertex completion\<close>

lemma vertex_unavailable:
  "\<not> isAvailable e Vertex \<Longrightarrow>
     vertex_generateCompletion e v messages opts tr = (Rejected (Error (notConfigured Vertex)), tr)"
  by (subst vertex_generateCompletion.simps) (simp del: isAvailable.simps)

lemma vertex_no_client:
  "isAvailable e Vertex \<Longrightarrow> \<not> (client tr \<or> clientInit v) \<Longrightarrow>
     vertex_generateCompletion e v messages opts tr
       = (Rejected (Error ''Failed to initialize Vertex AI client.''), vertex_ready e v tr)"
  by (subst vertex_generateCompletion.simps) (simp del: isAvailable.simps)

lemma vertex_success:
  "isAvailable e Vertex \<Longrightarrow> client tr \<or> clientInit v \<Longrightarrow>
   vertex_try e v messages opts (vertex_ready e v tr) = (Inr res, tr') \<Longrightarrow>
     vertex_generateCompletion e v messages opts tr = (Resolved res, tr')"
  by (subst vertex_generateCompletion.simps) (simp del: isAvailable.simps)

lemma vertex_retry:
  "isAvailable e Vertex \<Longrightarrow> client tr \<or> clientInit v \<Longrightarrow>
   vertex_try e v messages opts (vertex_ready e v tr) = (Inl msg, tr') \<Longrightarrow>
   vertex_rateLimited msg \<Longrightarrow> vertex_retryCount opts < 3 \<Longrightarrow>
     vertex_generateCompletion e v messages opts tr
       = afterTimer (vertex_generateCompletion e v messages
           (opts\<lparr>opt_retryCount := Some (vertex_retryCount opts + 1)\<rparr>)
           (tr'\<lparr>sleeps := sleeps tr' @ [2 ^ vertex_retryCount opts * 1000]\<rparr>))"
  by (subst vertex_generateCompletion.simps) (simp del: isAvailable.simps)

lemma vertex_getSuggestedModels_nonempty: "vertex_getSuggestedModels m \<noteq> []"
  by (simp add: vertex_getSuggestedModels_def)

lemma vertex_fallback:
  assumes "isAvailable e Vertex" and "client tr \<or> clientInit v"
    and "vertex_try e v messages opts (vertex_ready e v tr) = (Inl msg, tr')"
    and "\<not> (vertex_rateLimited msg \<and> vertex_retryCount opts < 3)"
    and "vertex_modelNotFound msg" and "\<not> opt_triedFallback opts"
  shows "vertex_generateCompletion e v messages opts tr
       = vertex_generateCompletion e v messages
           (opts\<lparr>opt_model := Some (hd (vertex_getSuggestedModels (vertex_modelName e opts))),
                  opt_triedFallback := True\<rparr>) tr'"
proof (cases "vertex_getSuggestedModels (vertex_modelName e opts)")
  case Nil
  then show ?thesis by (simp add: vertex_getSuggestedModels_nonempty)
next
  case (Cons fb rest)
  from assms(2) have ready: "client (vertex_ready e v tr)" by simp
  have "vertex_generateCompletion e v messages opts tr
       = vertex_generateCompletion e v messages
           (opts\<lparr>opt_model := Some fb, opt_triedFallback := True\<rparr>) tr'"
    by (subst vertex_generateCompletion.simps)
       (simp only: assms ready Cons if_True if_False simp_thms prod.case sum.case list.case)
  then show ?thesis by (simp add: Cons)
qed

lemma vertex_rethrow:
  assumes "isAvailable e Vertex" and "client tr \<or> clientInit v"
    and "vertex_try e v messages opts (vertex_ready e v tr) = (Inl msg, tr')"
    and "\<not> (vertex_rateLimited msg \<and> vertex_retryCount opts < 3)"
    and "\<not> (vertex_modelNotFound msg \<and> \<not> opt_triedFallback opts)"
  shows "vertex_generateCompletion e v messages opts tr = (Rejected (Error msg), tr')"
proof -
  from assms(2) have ready: "client (vertex_ready e v tr)" by simp
  show ?thesis
    by (subst vertex_generateCompletion.simps)
       (simp only: assms ready if_True if_False simp_thms prod.case sum.case list.case)
qed

lemma vertex_cases [case_names unavailable no_client success retry fallback rethrow]:
  obtains
    (unavailable) "\<not> isAvailable e Vertex"
  | (no_client) "isAvailable e Vertex" "\<not> (client tr \<or> clientInit v)"
  | (success) res tr' where "isAvailable e Vertex" "client tr \<or> clientInit v"
      "vertex_try e v messages opts (vertex_ready e v tr) = (Inr res, tr')"
  | (retry) msg tr' where "isAvailable e Vertex" "client tr \<or> clientInit v"
      "vertex_try e v messages opts (vertex_ready e v tr) = (Inl msg, tr')"
      "vertex_rateLimited msg" "vertex_retryCount opts < 3"
  | (fallback) msg tr' where "isAvailable e Vertex" "client tr \<or> clientInit v"
      "vertex_try e v messages opts (vertex_ready e v tr) = (Inl msg, tr')"
      "\<not> (vertex_rateLimited msg \<and> vertex_retryCount opts < 3)"
      "vertex_modelNotFound msg" "\<not> opt_triedFallback opts"
  | (rethrow) msg tr' where "isAvailable e Vertex" "client tr \<or> clientInit v"
      "vertex_try e v messages opts (vertex_ready e v tr) = (Inl msg, tr')"
      "\<not> (vertex_rateLimited msg \<and> vertex_retryCount opts < 3)"
      "\<not> (vertex_modelNotFound msg \<and> \<not> opt_triedFallback opts)"
proof -
  obtain outcome tr' where "vertex_try e v messages opts (vertex_ready e v tr) = (outcome, tr')"
    by (cases "vertex_try e v messages opts (vertex_ready e v tr)")
  then show ?thesis
    using that by (cases outcome) blast+
qed

lemma retryBudget_retry:
  "vertex_retryCount opts < 3 \<Longrightarrow>
     retryBudget (opts\<lparr>opt_retryCount := Some (vertex_retryCount opts + 1)\<rparr>) < retryBudget opts"
  by (simp add: retryBudget_def vertex_retryCount_def)

lemma retryBudget_fallback:
  "\<not> opt_triedFallback opts \<Longrightarrow>
     retryBudget (opts\<lparr>opt_model := Some fb, opt_triedFallback := True\<rparr>) < retryBudget opts"
  by (simp add: retryBudget_def vertex_retryCount_def)

text \<open>
  An attempt in a state with a client: the instance comes from the cache or is created,
  then the request is made. Nothing but the cache changes before the request.
\<close>

lemma vertex_try_client:
  assumes "client tr"
  obtains inst tr1 where
    "getModelInstance e (vertex_modelName e opts) opts tr = Inr (inst, tr1)"
    "forgetCache tr1 = forgetCache tr"
    "cacheBuiltBy e tr \<Longrightarrow> inst = vertex_generationConfig e opts \<and> cacheBuiltBy e tr1"
    "vertex_try e v messages opts tr = vertex_generate e v messages opts inst tr1"
proof -
  from assms obtain inst tr1 where result:
    "getModelInstance e (vertex_modelName e opts) opts tr = Inr (inst, tr1)"
    "forgetCache tr1 = forgetCache tr"
    "cacheBuiltBy e tr \<Longrightarrow> inst = vertex_generationConfig e opts \<and> cacheBuiltBy e tr1"
    by (rule getModelInstance_client [where e = e and m = "vertex_modelName e opts" and opts = opts])
       blast
  from result(1) have "vertex_try e v messages opts tr = vertex_generate e v messages opts inst tr1"
    by (simp add: vertex_try_def)
  with result show ?thesis by (rule that)
qed

lemma vertex_try_state:
  assumes "client tr" and "vertex_try e v messages opts tr = (outcome, tr')"
  shows "client tr'" and "sleeps tr' = sleeps tr" and "unhandled tr' = unhandled tr"
    and "cacheBuiltBy e tr \<Longrightarrow> cacheBuiltBy e tr'"
    and "\<exists>inst. calls tr' = calls tr @
           [(vertex_params e messages opts inst)\<lparr>p_stream := opt_stream opts \<and> opt_onUpdate opts\<rparr>] \<and>
           (cacheBuiltBy e tr \<longrightarrow> inst = vertex_generationConfig e opts)"
proof -
  from assms(1) obtain inst tr1 where result:
    "forgetCache tr1 = forgetCache tr"
    "cacheBuiltBy e tr \<Longrightarrow> inst = vertex_generationConfig e opts \<and> cacheBuiltBy e tr1"
    "vertex_try e v messages opts tr = vertex_generate e v messages opts inst tr1"
    by (rule vertex_try_client [where e = e and opts = opts and v = v and messages = messages]) blast
  from result(3) assms(2) have tr': "tr' = snd (vertex_generate e v messages opts inst tr1)"
    by (metis snd_conv)
  from result(1) assms(1) have same: "client tr1" "sleeps tr1 = sleeps tr" "unhandled tr1 = unhandled tr"
    "calls tr1 = calls tr"
    by (simp_all add: forgetCache_eq)
  from same show "client tr'" "sleeps tr' = sleeps tr" "unhandled tr' = unhandled tr"
    by (simp_all add: tr' vertex_generate_state)
  show "cacheBuiltBy e tr'" if "cacheBuiltBy e tr"
    using result(2) [OF that] by (simp add: tr' cacheBuiltBy_def vertex_generate_state)
  from same result(2) show "\<exists>inst. calls tr' = calls tr @
           [(vertex_params e messages opts inst)\<lparr>p_stream := opt_stream opts \<and> opt_onUpdate opts\<rparr>] \<and>
           (cacheBuiltBy e tr \<longrightarrow> inst = vertex_generationConfig e opts)"
    by (intro exI [of _ inst]) (simp add: tr' vertex_generate_state)
qed


section \<open>Requests the Vertex provider cannot tell apart\<close>

lemma numOr_nonZero [simp]: "numOr (nonZero x) d = numOr x d"
  by (simp add: numOr_def nonZero_def split: option.split)

lemma numOrCfg_nonZero:
  "numOrCfg x c d =
     (case nonZero x of None \<Rightarrow> (if truthy c then JStr (orDefault c []) else JNum d)
      | Some r \<Rightarrow> JNum r)"
  by (simp add: numOrCfg_def nonZero_def split: option.split)

lemma nonZero_idem [simp]: "nonZero (nonZero x) = nonZero x"
  by (simp add: nonZero_def split: option.split)

lemma sameRequest_dropZeros: "sameRequest opts (dropZeros opts)"
  by (simp add: sameRequest_def dropZeros_def)

lemma sameRequest_vertex_modelName:
  "sameRequest a b \<Longrightarrow> vertex_modelName e a = vertex_modelName e b"
  by (simp add: sameRequest_def vertex_modelName_def)

lemma sameRequest_generationConfig:
  "sameRequest a b \<Longrightarrow> vertex_generationConfig e a = vertex_generationConfig e b"
  by (simp add: sameRequest_def vertex_generationConfig_def numOrCfg_nonZero)

lemma sameRequest_vertex_generate:
  assumes "sameRequest a b"
  shows "vertex_generate e v messages a inst tr = vertex_generate e v messages b inst tr"
proof -
  have "opt_tools a = opt_tools b" "opt_stream a = opt_stream b" "opt_onUpdate a = opt_onUpdate b"
    using assms by (simp_all add: sameRequest_def)
  then show ?thesis
    unfolding vertex_generate_def vertex_params_def sameRequest_vertex_modelName [OF assms] by simp
qed

lemma sameRequest_vertex_try:
  assumes "sameRequest a b" and "forgetCache s = forgetCache t" and "client s"
    and "cacheBuiltBy e s" and "cacheBuiltBy e t"
  shows "fst (vertex_try e v messages a s) = fst (vertex_try e v messages b t)"
    and "forgetCache (snd (vertex_try e v messages a s)) = forgetCache (snd (vertex_try e v messages b t))"
    and "cacheBuiltBy e (snd (vertex_try e v messages a s))"
    and "cacheBuiltBy e (snd (vertex_try e v messages b t))"
proof -
  from assms(2,3) have "client t" by (simp add: forgetCache_eq)
  from \<open>client s\<close> obtain i s1 where s1: "forgetCache s1 = forgetCache s"
    "cacheBuiltBy e s \<Longrightarrow> i = vertex_generationConfig e a \<and> cacheBuiltBy e s1"
    "vertex_try e v messages a s = vertex_generate e v messages a i s1"
    by (rule vertex_try_client [where e = e and opts = a and v = v and messages = messages]) blast
  from \<open>client t\<close> obtain j t1 where t1: "forgetCache t1 = forgetCache t"
    "cacheBuiltBy e t \<Longrightarrow> j = vertex_generationConfig e b \<and> cacheBuiltBy e t1"
    "vertex_try e v messages b t = vertex_generate e v messages b j t1"
    by (rule vertex_try_client [where e = e and opts = b and v = v and messages = messages]) blast
  from s1(2) t1(2) assms have ij: "j = i" and built: "cacheBuiltBy e s1" "cacheBuiltBy e t1"
    by (simp_all add: sameRequest_generationConfig [OF assms(1)])
  from s1(1) t1(1) assms(2) have alike: "forgetCache s1 = forgetCache t1" by simp
  show "fst (vertex_try e v messages a s) = fst (vertex_try e v messages b t)"
    and "forgetCache (snd (vertex_try e v messages a s)) = forgetCache (snd (vertex_try e v messages b t))"
    unfolding s1(3) t1(3) ij sameRequest_vertex_generate [OF assms(1)]
    by (rule vertex_generate_forgetCache [OF alike])+
  from built show "cacheBuiltBy e (snd (vertex_try e v messages a s))"
    and "cacheBuiltBy e (snd (vertex_try e v messages b t))"
    unfolding s1(3) t1(3) by (simp_all add: cacheBuiltBy_def vertex_generate_state)
qed

lemma afterTimer_forgetCache:
  assumes "fst x = fst y" and "forgetCache (snd x) = forgetCache (snd y)"
  shows "fst (afterTimer x) = fst (afterTimer y) \<and>
         forgetCache (snd (afterTimer x)) = forgetCache (snd (afterTimer y))"
  using assms
  by (cases x rule: afterTimer.cases; cases y rule: afterTimer.cases)
     (simp_all add: forgetCache_eq)

lemma sameRequest_vertex:
  assumes "sameRequest a b" and "forgetCache s = forgetCache t"
    and "cacheBuiltBy e s" and "cacheBuiltBy e t"
  shows "fst (vertex_generateCompletion e v messages a s)
           = fst (vertex_generateCompletion e v messages b t) \<and>
         forgetCache (snd (vertex_generateCompletion e v messages a s))
           = forgetCache (snd (vertex_generateCompletion e v messages b t))"
  using assms
proof (induction "retryBudget a" arbitrary: a b s t rule: less_induct)
  case less
  note same = \<open>sameRequest a b\<close>
  have count: "vertex_retryCount b = vertex_retryCount a"
    and tried: "opt_triedFallback b = opt_triedFallback a"
    using same by (simp_all add: sameRequest_def vertex_retryCount_def)
  have name: "vertex_modelName e b = vertex_modelName e a"
    using sameRequest_vertex_modelName [OF same] by simp
  from less.prems(2) have cl: "client t = client s" by (simp add: forgetCache_eq)
  have ready: "forgetCache (vertex_ready e v s) = forgetCache (vertex_ready e v t)"
    using less.prems(2) by (simp add: vertex_ready_state(1) forgetCache_eq)
  consider (unavailable) "\<not> isAvailable e Vertex"
    | (no_client) "isAvailable e Vertex" "\<not> (client s \<or> clientInit v)"
    | (ready) "isAvailable e Vertex" "client s \<or> clientInit v"
    by blast
  then show ?case
  proof cases
    case unavailable
    show ?thesis by (simp add: vertex_unavailable [OF unavailable] less.prems(2))
  next
    case no_client
    from no_client have "\<not> (client t \<or> clientInit v)" by (simp add: cl)
    with no_client ready show ?thesis by (simp add: vertex_no_client del: isAvailable.simps)
  next
    case ready': ready
    from ready'(2) have readyt: "client t \<or> clientInit v" by (simp add: cl)
    let ?s = "vertex_ready e v s" and ?t = "vertex_ready e v t"
    from ready'(2) have "client ?s" by simp
    note attempt = sameRequest_vertex_try [OF same ready this
        vertex_ready_state(2) [OF less.prems(3)] vertex_ready_state(2) [OF less.prems(4)],
        of v messages]
    obtain outcome s' where ra: "vertex_try e v messages a ?s = (outcome, s')"
      by (cases "vertex_try e v messages a ?s")
    obtain outcome' t' where rb0: "vertex_try e v messages b ?t = (outcome', t')"
      by (cases "vertex_try e v messages b ?t")
    from attempt ra rb0 have out: "outcome' = outcome" and alike: "forgetCache s' = forgetCache t'"
      and built: "cacheBuiltBy e s'" "cacheBuiltBy e t'" by simp_all
    note rb = rb0 [unfolded out]
    show ?thesis
    proof (cases outcome)
      case (Inr res)
      with ra rb alike show ?thesis
        by (simp add: vertex_success [OF ready'] vertex_success [OF ready'(1) readyt])
    next
      case (Inl msg)
      note ra = ra [unfolded Inl] and rb = rb [unfolded Inl]
      show ?thesis
      proof (cases "vertex_rateLimited msg \<and> vertex_retryCount a < 3")
        case True
        then have rl: "vertex_rateLimited msg" and lt: "vertex_retryCount a < 3"
          and ltb: "vertex_retryCount b < 3" by (simp_all add: count)
        let ?a = "a\<lparr>opt_retryCount := Some (vertex_retryCount a + 1)\<rparr>"
        let ?b = "b\<lparr>opt_retryCount := Some (vertex_retryCount a + 1)\<rparr>"
        let ?s' = "s'\<lparr>sleeps := sleeps s' @ [2 ^ vertex_retryCount a * 1000]\<rparr>"
        let ?t' = "t'\<lparr>sleeps := sleeps t' @ [2 ^ vertex_retryCount a * 1000]\<rparr>"
        have "fst (vertex_generateCompletion e v messages ?a ?s')
                = fst (vertex_generateCompletion e v messages ?b ?t') \<and>
              forgetCache (snd (vertex_generateCompletion e v messages ?a ?s'))
                = forgetCache (snd (vertex_generateCompletion e v messages ?b ?t'))"
        proof (rule less.hyps)
          show "retryBudget ?a < retryBudget a" by (rule retryBudget_retry [OF lt])
          show "sameRequest ?a ?b" using same by (simp add: sameRequest_def)
          show "forgetCache ?s' = forgetCache ?t'" using alike by (simp add: forgetCache_eq)
          show "cacheBuiltBy e ?s'" "cacheBuiltBy e ?t'" using built by simp_all
        qed
        then show ?thesis
          unfolding vertex_retry [OF ready' ra rl lt] vertex_retry [OF ready'(1) readyt rb rl ltb] count
          by (intro afterTimer_forgetCache) simp_all
      next
        case False
        then have nb: "\<not> (vertex_rateLimited msg \<and> vertex_retryCount b < 3)" by (simp add: count)
        show ?thesis
        proof (cases "vertex_modelNotFound msg \<and> \<not> opt_triedFallback a")
          case True
          then have nf: "vertex_modelNotFound msg" and nt: "\<not> opt_triedFallback a"
            and ntb: "\<not> opt_triedFallback b" by (simp_all add: tried)
          let ?fb = "hd (vertex_getSuggestedModels (vertex_modelName e a))"
          let ?a = "a\<lparr>opt_model := Some ?fb, opt_triedFallback := True\<rparr>"
          let ?b = "b\<lparr>opt_model := Some ?fb, opt_triedFallback := True\<rparr>"
          have "fst (vertex_generateCompletion e v messages ?a s')
                  = fst (vertex_generateCompletion e v messages ?b t') \<and>
                forgetCache (snd (vertex_generateCompletion e v messages ?a s'))
                  = forgetCache (snd (vertex_generateCompletion e v messages ?b t'))"
          proof (rule less.hyps)
            show "retryBudget ?a < retryBudget a" by (rule retryBudget_fallback [OF nt])
            show "sameRequest ?a ?b" using same by (simp add: sameRequest_def)
            show "forgetCache s' = forgetCache t'" by (rule alike)
            show "cacheBuiltBy e s'" "cacheBuiltBy e t'" by (rule built)+
          qed
          then show ?thesis
            by (simp only: vertex_fallback [OF ready' ra False nf nt]
                vertex_fallback [OF ready'(1) readyt rb nb nf ntb] name)
        next
          case nf: False
          then have nfb: "\<not> (vertex_modelNotFound msg \<and> \<not> opt_triedFallback b)"
            by (simp add: tried)
          show ?thesis
            using alike
            by (simp only: vertex_rethrow [OF ready' ra False nf]
                vertex_rethrow [OF ready'(1) readyt rb nb nfb] fst_conv snd_conv simp_thms)
        qed
      qed
    qed
  qed
qed


section \<open>Numeric options that are zero\<close>

lemmas params_defs =
  openai_params_def anthropic_params_def ollama_params_def azure_params_def
  google_params_def lmstudio_params_def huggingface_params_def

lemma dropZeros_fields [simp]:
  "opt_model (dropZeros opts) = opt_model opts" "opt_tools (dropZeros opts) = opt_tools opts"
  "opt_stream (dropZeros opts) = opt_stream opts" "opt_onUpdate (dropZeros opts) = opt_onUpdate opts"
  "opt_onStreamData (dropZeros opts) = opt_onStreamData opts"
  "opt_useEndpoint (dropZeros opts) = opt_useEndpoint opts"
  "opt_useMcp (dropZeros opts) = opt_useMcp opts"
  by (simp_all add: dropZeros_def)

lemma dropZeros_params [simp]:
  "openai_params messages (dropZeros opts) = openai_params messages opts"
  "anthropic_params messages (dropZeros opts) = anthropic_params messages opts"
  "ollama_params e messages (dropZeros opts) = ollama_params e messages opts"
  "azure_params e messages (dropZeros opts) = azure_params e messages opts"
  "google_params e messages (dropZeros opts) = google_params e messages opts"
  "lmstudio_params e messages (dropZeros opts) = lmstudio_params e messages opts"
  "huggingface_params messages (dropZeros opts) = huggingface_params messages opts"
  by (simp_all add: params_defs dropZeros_def)

lemma dropZeros_completion:
  "a \<noteq> Vertex \<Longrightarrow>
     generateCompletion e v a messages (dropZeros opts) tr = generateCompletion e v a messages opts tr"
  by (cases a)
     (simp_all add: simple_completion_defs generateWithEndpoint_def generateWithMcp_def Let_def
        del: isAvailable.simps cong: if_cong)

text \<open>What reaches the vendor for an option read as \<^verbatim>\<open>options.x || d\<close>.\<close>

lemma numOr_orLiteral: "JNum (numOr x d) = orLiteral x (JNum d)"
  by (simp add: numOr_def nonZero_def orLiteral_def split: option.split)

lemma numOr_zero: "numOr x 0 = (case x of None \<Rightarrow> 0 | Some r \<Rightarrow> r)"
  by (simp add: numOr_def split: option.split)

lemma numOrCfg_orLiteral:
  "numOrCfg x c d = orLiteral x (if truthy c then JStr (orDefault c []) else JNum d)"
  by (simp add: numOrCfg_def nonZero_def orLiteral_def split: option.split)

lemma calls_simps [simp]:
  "calls (called p tr) = calls tr @ [p]" "calls (notify us tr) = calls tr"
  by (simp_all add: called_def notify_def)

lemma plainChat_state [simp]: "snd (plainChat v p shape rethrow tr) = called p tr"
  by (simp add: plainChat_def split: sum.split)

lemma rawStream_state [simp]: "snd (rawStream v p tr) = called p tr"
  by (simp add: rawStream_def split: sum.split)

lemma google_state_calls:
  "calls (snd (google_generateCompletion e v messages opts tr)) =
     (if \<not> isAvailable e Google then calls tr
      else if opt_stream opts \<and> opt_onStreamData opts then
        (if p_messages (google_params e messages opts) = [] then calls tr
         else calls tr @ [(google_params e messages opts)\<lparr>p_stream := True\<rparr>])
      else if (case opt_tools opts of None \<Rightarrow> False | Some ts \<Rightarrow> ts \<noteq> []) then
        (if p_messages (google_params e messages opts) = [] then calls tr
         else calls tr @ [(google_params e messages opts)\<lparr>p_tools := opt_tools opts\<rparr>])
      else calls tr @ [google_params e messages opts])"
proof (cases "isAvailable e Google")
  case False
  then show ?thesis by (simp add: google_generateCompletion_def del: isAvailable.simps)
next
  case True
  consider (streaming) "opt_stream opts \<and> opt_onStreamData opts"
    | (tools) "\<not> (opt_stream opts \<and> opt_onStreamData opts)"
        "(case opt_tools opts of None \<Rightarrow> False | Some ts \<Rightarrow> ts \<noteq> [])"
    | (plain) "\<not> (opt_stream opts \<and> opt_onStreamData opts)"
        "\<not> (case opt_tools opts of None \<Rightarrow> False | Some ts \<Rightarrow> ts \<noteq> [])"
    by blast
  then show ?thesis
  proof cases
    case streaming
    show ?thesis
      unfolding google_generateCompletion_def Let_def
      by (simp only: True streaming simp_thms if_True if_False)
         (simp split: sum.split prod.split option.split)
  next
    case tools
    show ?thesis
      unfolding google_generateCompletion_def Let_def
      by (simp only: True tools simp_thms if_True if_False) (simp split: sum.split)
  next
    case plain
    show ?thesis
      unfolding google_generateCompletion_def Let_def
      by (simp only: True plain simp_thms if_True if_False) (simp split: sum.split)
  qed
qed


lemma defaults_of_literals:
  "defaultTemperature e a \<noteq> JNum 0 \<or> a = Vertex"
  "defaultMaxTokens e a \<noteq> JNum 0 \<or> a = Vertex"
  by (cases a; simp)+

lemma simple_calls:
  assumes "a \<noteq> Vertex"
  shows "\<exists>ps. calls (snd (generateCompletion e v a messages opts tr)) = calls tr @ ps \<and>
     (\<forall>p\<in>set ps.
        p_temperature p = orLiteral (opt_temperature opts) (defaultTemperature e a) \<and>
        p_max_tokens p = orLiteral (opt_max_tokens opts) (defaultMaxTokens e a) \<and>
        (a = LMStudio \<longrightarrow>
           p_frequency_penalty p = Some (JNum (numOr (opt_frequency_penalty opts) 0)) \<and>
           p_presence_penalty p = Some (JNum (numOr (opt_presence_penalty opts) 0)))) \<and>
     (isAvailable e a \<and> (a = Google \<longrightarrow> filter (\<lambda>m. role m \<noteq> ''system'') messages \<noteq> []) \<longrightarrow> ps \<noteq> [])"
proof (cases a)
  case OpenAI
  show ?thesis
    unfolding OpenAI
    by (simp add: openai_generateCompletion_def openai_params_def numOr_orLiteral Let_def
          del: isAvailable.simps)
next
  case Anthropic
  show ?thesis
    unfolding Anthropic
    by (simp add: anthropic_generateCompletion_def anthropic_params_def numOr_orLiteral Let_def
          del: isAvailable.simps)
next
  case Ollama
  show ?thesis
    unfolding Ollama
    by (simp add: ollama_generateCompletion_def ollama_params_def numOr_orLiteral Let_def
          del: isAvailable.simps)
next
  case Azure
  show ?thesis
    unfolding Azure
    by (simp add: azure_generateCompletion_def azure_params_def numOr_orLiteral Let_def
          del: isAvailable.simps)
next
  case Vertex
  with assms show ?thesis by simp
next
  case Google
  have fields: "p_temperature (google_params e messages opts) = orLiteral (opt_temperature opts) (JNum (4 / 10))"
    "p_max_tokens (google_params e messages opts) = orLiteral (opt_max_tokens opts) (JNum 8192)"
    "p_messages (google_params e messages opts) = [] \<longleftrightarrow> filter (\<lambda>m. role m \<noteq> ''system'') messages = []"
    by (simp_all add: google_params_def numOr_orLiteral)
  show ?thesis
    unfolding Google
    by (simp add: google_state_calls fields del: isAvailable.simps)
next
  case LMStudio
  show ?thesis
    unfolding LMStudio
    by (simp add: lmstudio_generateCompletion_def lmstudio_params_def numOr_orLiteral Let_def
          del: isAvailable.simps)
next
  case HuggingFace
  show ?thesis
    unfolding HuggingFace
    by (simp add: huggingface_generateCompletion_def huggingface_params_def generateWithEndpoint_def
          generateWithMcp_def numOr_orLiteral Let_def split: sum.split del: isAvailable.simps)
qed


lemma afterTimer_trace [simp]:
  "calls (snd (afterTimer x)) = calls (snd x)"
  "sleeps (snd (afterTimer x)) = sleeps (snd x)"
  "cacheBuiltBy e (snd (afterTimer x)) = cacheBuiltBy e (snd x)"
  by (cases x rule: afterTimer.cases; simp)+

lemma vertex_generationConfig_update [simp]:
  "vertex_generationConfig e (opts\<lparr>opt_retryCount := n\<rparr>) = vertex_generationConfig e opts"
  "vertex_generationConfig e (opts\<lparr>opt_model := m, opt_triedFallback := b\<rparr>)
     = vertex_generationConfig e opts"
  by (simp_all add: vertex_generationConfig_def)

lemma vertex_calls:
  assumes "cacheBuiltBy e tr"
  shows "\<exists>ps. calls (snd (vertex_generateCompletion e v messages opts tr)) = calls tr @ ps \<and>
     (\<forall>p\<in>set ps.
        p_temperature p = gc_temperature (vertex_generationConfig e opts) \<and>
        p_max_tokens p = gc_maxOutputTokens (vertex_generationConfig e opts)) \<and>
     (isAvailable e Vertex \<and> (client tr \<or> clientInit v) \<longrightarrow> ps \<noteq> [])"
  using assms
proof (induction "retryBudget opts" arbitrary: opts tr rule: less_induct)
  case less
  note built = vertex_ready_state(2) [OF less.prems, of v]
  have attempt: "\<exists>p. calls tr' = calls tr @ [p] \<and>
        p_temperature p = gc_temperature (vertex_generationConfig e opts) \<and>
        p_max_tokens p = gc_maxOutputTokens (vertex_generationConfig e opts)"
      "cacheBuiltBy e tr'"
    if "client tr \<or> clientInit v"
      and "vertex_try e v messages opts (vertex_ready e v tr) = (outcome, tr')" for outcome tr'
  proof -
    from that(1) have ready: "client (vertex_ready e v tr)" by simp
    from vertex_try_state(5) [OF ready that(2)] built
    show "\<exists>p. calls tr' = calls tr @ [p] \<and>
        p_temperature p = gc_temperature (vertex_generationConfig e opts) \<and>
        p_max_tokens p = gc_maxOutputTokens (vertex_generationConfig e opts)"
      by (auto simp: vertex_params_def)
    from vertex_try_state(4) [OF ready that(2)] built show "cacheBuiltBy e tr'" by simp
  qed
  show ?case
  proof (cases rule: vertex_cases [where e = e and v = v and messages = messages and opts = opts and tr = tr])
    case unavailable
    then show ?thesis by (simp add: vertex_unavailable del: isAvailable.simps)
  next
    case no_client
    then show ?thesis by (simp add: vertex_no_client del: isAvailable.simps)
  next
    case (success res tr')
    from attempt(1) [OF success(2,3)] show ?thesis
      by (auto simp add: vertex_success [OF success] simp del: isAvailable.simps)
  next
    case (retry msg tr')
    let ?opts = "opts\<lparr>opt_retryCount := Some (vertex_retryCount opts + 1)\<rparr>"
    let ?tr = "tr'\<lparr>sleeps := sleeps tr' @ [2 ^ vertex_retryCount opts * 1000]\<rparr>"
    from attempt(2) [OF retry(2,3)] have "cacheBuiltBy e ?tr" by simp
    from less.hyps [OF retryBudget_retry [OF retry(5)] this]
    obtain ps where ps: "calls (snd (vertex_generateCompletion e v messages ?opts ?tr)) = calls ?tr @ ps"
      "\<forall>p\<in>set ps. p_temperature p = gc_temperature (vertex_generationConfig e opts) \<and>
                   p_max_tokens p = gc_maxOutputTokens (vertex_generationConfig e opts)"
      by auto
    from attempt(1) [OF retry(2,3)] obtain p where p: "calls tr' = calls tr @ [p]"
      "p_temperature p = gc_temperature (vertex_generationConfig e opts)"
      "p_max_tokens p = gc_maxOutputTokens (vertex_generationConfig e opts)"
      by blast
    from ps p show ?thesis
      unfolding vertex_retry [OF retry]
      by (intro exI [of _ "p # ps"]) simp
  next
    case (fallback msg tr')
    let ?opts = "opts\<lparr>opt_model := Some (hd (vertex_getSuggestedModels (vertex_modelName e opts))),
                       opt_triedFallback := True\<rparr>"
    from less.hyps [OF retryBudget_fallback [OF fallback(6)] attempt(2) [OF fallback(2,3)]]
    obtain ps where ps: "calls (snd (vertex_generateCompletion e v messages ?opts tr')) = calls tr' @ ps"
      "\<forall>p\<in>set ps. p_temperature p = gc_temperature (vertex_generationConfig e opts) \<and>
                   p_max_tokens p = gc_maxOutputTokens (vertex_generationConfig e opts)"
      by auto
    from attempt(1) [OF fallback(2,3)] obtain p where p: "calls tr' = calls tr @ [p]"
      "p_temperature p = gc_temperature (vertex_generationConfig e opts)"
      "p_max_tokens p = gc_maxOutputTokens (vertex_generationConfig e opts)"
      by blast
    from ps p show ?thesis
      unfolding vertex_fallback [OF fallback]
      by (intro exI [of _ "p # ps"]) simp
  next
    case (rethrow msg tr')
    from attempt(1) [OF rethrow(2,3)] show ?thesis
      by (auto simp add: vertex_rethrow [OF rethrow] simp del: isAvailable.simps)
  qed
qed


lemma newCalls_append:
  "calls (snd result) = calls tr @ ps \<Longrightarrow> newCalls tr result = ps"
  by (simp add: newCalls_def)

text \<open>
  The cache is keyed without the configuration: a second Vertex provider with another
  configuration, asked for the same model with the same options, sends the generation
  parameters of the first one.
\<close>

lemma vertex_cache_ignores_configuration:
  "map p_temperature (calls (snd (generateCompletion vertexOnly helloVendor Vertex userHi noOptions
      (snd (generateCompletion (vertexWith ''0.2'') helloVendor Vertex userHi noOptions emptyTrace)))))
     = [JStr ''0.2'', JStr ''0.2'']"
  by code_simp

text \<open>
  Claim C10, as stated, does not hold for every numeric option and every provider. The
  LM Studio provider reads \<^verbatim>\<open>frequency_penalty\<close> and \<^verbatim>\<open>presence_penalty\<close> with
  \<^verbatim>\<open>|| 0\<close>: a request that sets one of them to \<open>0\<close> hands \<open>0\<close> to the vendor, so the
  option is honoured and the default is not a nonzero value. The Vertex provider puts the
  configuration value before its literal: with \<^verbatim>\<open>VERTEX_TEMPERATURE\<close> set to the string
  \<^verbatim>\<open>0\<close>, a request with \<^verbatim>\<open>temperature: 0\<close> hands the string \<^verbatim>\<open>'0'\<close> to the vendor.
\<close>

theorem zero_penalty_reaches_vendor_counterexample:
  "map p_frequency_penalty (calls (snd (generateCompletion lmstudioOnly helloVendor LMStudio userHi
      (noOptions\<lparr>opt_frequency_penalty := Some 0\<rparr>) emptyTrace))) = [Some (JNum 0)] \<and>
   map p_presence_penalty (calls (snd (generateCompletion lmstudioOnly helloVendor LMStudio userHi
      (noOptions\<lparr>opt_presence_penalty := Some 0\<rparr>) emptyTrace))) = [Some (JNum 0)] \<and>
   map p_temperature (calls (snd (generateCompletion (vertexWith ''0'') helloVendor Vertex userHi
      (noOptions\<lparr>opt_temperature := Some 0\<rparr>) emptyTrace))) = [JStr ''0'']"
  by code_simp

text \<open>
  Claim C10, amended. For every provider, a completion request runs exactly as the request
  that leaves out every numeric option set to \<open>0\<close> (\<^verbatim>\<open>temperature\<close>, \<^verbatim>\<open>max_tokens\<close>,
  \<^verbatim>\<open>top_p\<close>, \<^verbatim>\<open>top_k\<close>, \<^verbatim>\<open>n\<close>, \<^verbatim>\<open>repetition_penalty\<close>, \<^verbatim>\<open>frequency_penalty\<close>,
  \<^verbatim>\<open>presence_penalty\<close>): the two runs end in the same way and leave the same vendor
  calls, delays, callback invocations and unhandled errors behind (only the keys of the
  Vertex model cache can differ). Every vendor call the completion makes carries, for
  \<^verbatim>\<open>temperature\<close> and for \<^verbatim>\<open>max_tokens\<close>, the requested number when it is not \<open>0\<close> and
  the provider's default otherwise; the default is a nonzero literal for every provider but
  Vertex, whose default is the configuration string when it is set and a nonzero literal
  otherwise. An available provider makes at least one vendor call (Vertex once it has a
  client, Google when a message other than a system message is present), so the default
  does reach the vendor. The two penalties of LM Studio are sent as requested, \<open>0\<close>
  included, and as \<open>0\<close> when they are absent. For Vertex this is stated for a model cache
  whose instances were created under the provider's own configuration.
\<close>

theorem zero_option_runs_as_absent:
  assumes "a = Vertex \<longrightarrow> cacheBuiltBy e tr"
  shows
   "fst (generateCompletion e v a messages opts tr)
      = fst (generateCompletion e v a messages (dropZeros opts) tr) \<and>
    forgetCache (snd (generateCompletion e v a messages opts tr))
      = forgetCache (snd (generateCompletion e v a messages (dropZeros opts) tr)) \<and>
    prefix (calls tr) (calls (snd (generateCompletion e v a messages opts tr))) \<and>
    (\<forall>p \<in> set (newCalls tr (generateCompletion e v a messages opts tr)).
       p_temperature p
         = (case nonZero (opt_temperature opts) of
              None \<Rightarrow> defaultTemperature e a | Some r \<Rightarrow> JNum r) \<and>
       p_max_tokens p
         = (case nonZero (opt_max_tokens opts) of
              None \<Rightarrow> defaultMaxTokens e a | Some r \<Rightarrow> JNum r) \<and>
       (a = LMStudio \<longrightarrow>
          p_frequency_penalty p
            = Some (JNum (case opt_frequency_penalty opts of None \<Rightarrow> 0 | Some r \<Rightarrow> r)) \<and>
          p_presence_penalty p
            = Some (JNum (case opt_presence_penalty opts of None \<Rightarrow> 0 | Some r \<Rightarrow> r)))) \<and>
    (isAvailable e a \<and> (a = Vertex \<longrightarrow> client tr \<or> clientInit v) \<and>
     (a = Google \<longrightarrow> filter (\<lambda>m. role m \<noteq> ''system'') messages \<noteq> []) \<longrightarrow>
       newCalls tr (generateCompletion e v a messages opts tr) \<noteq> []) \<and>
    (a \<noteq> Vertex \<longrightarrow> defaultTemperature e a \<noteq> JNum 0 \<and> defaultMaxTokens e a \<noteq> JNum 0)"
proof -
  let ?run = "generateCompletion e v a messages opts tr"
  have same: "fst ?run = fst (generateCompletion e v a messages (dropZeros opts) tr) \<and>
      forgetCache (snd ?run) = forgetCache (snd (generateCompletion e v a messages (dropZeros opts) tr))"
  proof (cases "a = Vertex")
    case True
    with assms have "cacheBuiltBy e tr" by simp
    from sameRequest_vertex [OF sameRequest_dropZeros refl this this] True show ?thesis by simp
  next
    case False
    then show ?thesis by (simp add: dropZeros_completion del: generateCompletion.simps)
  qed
  have "\<exists>ps. calls (snd ?run) = calls tr @ ps \<and>
     (\<forall>p\<in>set ps.
        p_temperature p = orLiteral (opt_temperature opts) (defaultTemperature e a) \<and>
        p_max_tokens p = orLiteral (opt_max_tokens opts) (defaultMaxTokens e a) \<and>
        (a = LMStudio \<longrightarrow>
           p_frequency_penalty p = Some (JNum (numOr (opt_frequency_penalty opts) 0)) \<and>
           p_presence_penalty p = Some (JNum (numOr (opt_presence_penalty opts) 0)))) \<and>
     (isAvailable e a \<and> (a = Vertex \<longrightarrow> client tr \<or> clientInit v) \<and>
      (a = Google \<longrightarrow> filter (\<lambda>m. role m \<noteq> ''system'') messages \<noteq> []) \<longrightarrow> ps \<noteq> [])"
  proof (cases "a = Vertex")
    case True
    with assms have "cacheBuiltBy e tr" by simp
    from vertex_calls [OF this, of v messages opts] True show ?thesis
      by (simp add: vertex_generationConfig_def numOrCfg_orLiteral del: isAvailable.simps)
  next
    case False
    from simple_calls [OF False, of e v messages opts tr] show ?thesis
      by (auto simp del: isAvailable.simps generateCompletion.simps)
  qed
  then obtain ps where ps: "calls (snd ?run) = calls tr @ ps"
    "\<forall>p\<in>set ps.
        p_temperature p = orLiteral (opt_temperature opts) (defaultTemperature e a) \<and>
        p_max_tokens p = orLiteral (opt_max_tokens opts) (defaultMaxTokens e a) \<and>
        (a = LMStudio \<longrightarrow>
           p_frequency_penalty p = Some (JNum (numOr (opt_frequency_penalty opts) 0)) \<and>
           p_presence_penalty p = Some (JNum (numOr (opt_presence_penalty opts) 0)))"
    "isAvailable e a \<and> (a = Vertex \<longrightarrow> client tr \<or> clientInit v) \<and>
      (a = Google \<longrightarrow> filter (\<lambda>m. role m \<noteq> ''system'') messages \<noteq> []) \<longrightarrow> ps \<noteq> []"
    by blast
  have new: "newCalls tr ?run = ps" by (rule newCalls_append [OF ps(1)])
  have before: "prefix (calls tr) (calls (snd ?run))" by (simp add: ps(1))
  from same before ps(2,3) defaults_of_literals [of e a] show ?thesis
    unfolding new orLiteral_def numOr_zero by blast
qed

theorem zero_option_runs_as_absent_witness:
  "cacheBuiltBy vertexOnly emptyTrace \<and>
   map p_temperature (newCalls emptyTrace (generateCompletion vertexOnly helloVendor Vertex userHi
      (noOptions\<lparr>opt_temperature := Some 0\<rparr>) emptyTrace)) = [JNum (7 / 10)] \<and>
   fst (generateCompletion vertexOnly helloVendor Vertex userHi
      (noOptions\<lparr>opt_temperature := Some 0\<rparr>) emptyTrace)
     = fst (generateCompletion vertexOnly helloVendor Vertex userHi noOptions emptyTrace)"
proof -
  let ?zero = "noOptions\<lparr>opt_temperature := Some 0\<rparr>"
  let ?run = "generateCompletion vertexOnly helloVendor Vertex userHi ?zero emptyTrace"
  have built: "Vertex = Vertex \<longrightarrow> cacheBuiltBy vertexOnly emptyTrace" by code_simp
  have one: "length (newCalls emptyTrace ?run) = 1" by code_simp
  have absent: "dropZeros ?zero = noOptions" by code_simp
  have default: "nonZero (opt_temperature ?zero) = None"
    "defaultTemperature vertexOnly Vertex = JNum (7 / 10)" by code_simp+
  from zero_option_runs_as_absent [OF built, of helloVendor userHi ?zero]
  have "fst ?run = fst (generateCompletion vertexOnly helloVendor Vertex userHi (dropZeros ?zero) emptyTrace)"
    and "\<forall>p \<in> set (newCalls emptyTrace ?run). p_temperature p = JNum (7 / 10)"
    unfolding default by simp_all
  with one absent built show ?thesis
    by (cases "newCalls emptyTrace ?run") simp_all
qed


section \<open>Resolution of the active provider\<close>

lemma getName_inj: "getName a = getName b \<longleftrightarrow> a = b"
  by (cases a; cases b; simp)

lemma find_getName:
  "a \<in> set ps \<Longrightarrow> find (\<lambda>b. getName b = getName a) ps = Some a"
  by (induction ps) (auto simp: getName_inj)

lemma find_getName_None:
  "\<forall>a \<in> set ps. getName a \<noteq> key \<Longrightarrow> find (\<lambda>b. getName b = key) ps = None"
  by (induction ps) auto

lemma getName_not_inherited: "getName a \<notin> set objectPrototypeKeys"
  by (cases a; simp add: objectPrototypeKeys_def)

lemma getName_truthy: "truthy (Some (getName a))"
  by (cases a; simp add: truthy_def)

lemma loadFrom_fold: "loadFrom dir ps = fold register (loadable dir) ps"
  by (induction dir ps rule: loadFrom.induct)
     (simp_all add: loadable_def getName_truthy split: option.split)

lemma remdups_snoc: "remdups (ys @ [x]) = filter (\<lambda>y. y \<noteq> x) (remdups ys) @ [x]"
  by (induction ys) auto

lemma fold_register:
  "fold register xs ps = ps @ filter (\<lambda>x. x \<notin> set ps) (rev (remdups (rev xs)))"
proof (induction xs arbitrary: ps)
  case Nil
  then show ?case by simp
next
  case (Cons x xs)
  have first: "rev (remdups (rev (x # xs))) = x # filter (\<lambda>y. y \<noteq> x) (rev (remdups (rev xs)))"
    by (simp add: remdups_snoc rev_filter)
  have step: "fold register (x # xs) ps = fold register xs (register x ps)"
    by simp
  show ?case
  proof (cases "x \<in> set ps")
    case True
    then have r: "register x ps = ps"
      by (simp add: register_def)
    have "filter (\<lambda>y. y \<notin> set ps) (filter (\<lambda>y. y \<noteq> x) (rev (remdups (rev xs))))
        = filter (\<lambda>y. y \<notin> set ps) (rev (remdups (rev xs)))"
      using True by (auto intro: filter_cong)
    with True show ?thesis
      unfolding first step r Cons.IH by simp
  next
    case False
    then have r: "register x ps = ps @ [x]"
      by (simp add: register_def)
    have "filter (\<lambda>y. y \<notin> set (ps @ [x])) (rev (remdups (rev xs)))
        = filter (\<lambda>y. y \<notin> set ps) (filter (\<lambda>y. y \<noteq> x) (rev (remdups (rev xs))))"
      by (auto intro: filter_cong)
    with False show ?thesis
      unfolding first step r Cons.IH by simp
  qed
qed

lemma loadProviders_first_occurrences:
  "loadProviders dir = rev (remdups (rev (loadable dir)))"
  by (simp add: loadProviders_def loadFrom_fold fold_register)

text \<open>
  A preferred name that every object inherits makes the constructor of the manager throw,
  whatever is configured.
\<close>

lemma preferred_inherited_property_throws:
  assumes "key \<in> set objectPrototypeKeys"
  shows "determineActiveProvider e (Some key) ps
     = Inl (TypeError ''this.providers[preferredProvider].isAvailable is not a function'')"
proof -
  have "find (\<lambda>a. getName a = key) ps = None"
    using assms getName_not_inherited by (intro find_getName_None) auto
  moreover have "key \<noteq> []"
    using assms by (auto simp: objectPrototypeKeys_def)
  ultimately show ?thesis
    using assms
    by (simp add: determineActiveProvider_def getProperty_def truthy_def orDefault_def)
qed

text \<open>
  Claim C2, as the specification states it, does not hold. With an Ollama host and an
  OpenAI key configured and no preferred provider, the manager selects the one whose file
  comes first in the directory listing: Ollama for the alphabetical listing, OpenAI when
  the two files are listed the other way round. So the order is not a fixed list of names,
  and a local backend (its capability object has \<^verbatim>\<open>local: true\<close>) is selected while a
  hosted one is configured.
\<close>

theorem resolution_order_counterexample:
  "determineActiveProvider localAndHosted None
      (loadProviders [(''ollama.js'', Some Ollama), (''openai.js'', Some OpenAI)]) = Inr (Some Ollama) \<and>
   determineActiveProvider localAndHosted None
      (loadProviders [(''openai.js'', Some OpenAI), (''ollama.js'', Some Ollama)]) = Inr (Some OpenAI) \<and>
   determineActiveProvider localAndHosted None (loadProviders providerFiles) = Inr (Some Ollama) \<and>
   isAvailable localAndHosted OpenAI \<and>
   map_sum id (\<lambda>c. flag c ''local'') (getCapabilities localAndHosted Ollama ''llama3'') = Inr True \<and>
   map_sum id (\<lambda>c. flag c ''local'') (getCapabilities localAndHosted OpenAI ''gpt-4o'') = Inr False"
  by code_simp

text \<open>
  Claim C2, amended. When the preferred name is not a property inherited from
  \<^verbatim>\<open>Object.prototype\<close>: the manager picks the loaded provider named by
  \<^verbatim>\<open>AI_PROVIDER\<close> when that provider reports itself available; otherwise it walks the
  loaded providers in the order of the table and picks the first that reports itself
  available, and yields \<^verbatim>\<open>null\<close> when none does. The table holds the providers in the
  order in which the directory listing first names their files; no priority list exists.
\<close>

theorem resolution_follows_load_order:
  assumes "orDefault preferred [] \<notin> set objectPrototypeKeys"
  shows
   "(\<forall>a \<in> set ps. preferred = Some (getName a) \<and> isAvailable e a \<longrightarrow>
        determineActiveProvider e preferred ps = Inr (Some a)) \<and>
    ((\<forall>a \<in> set ps. preferred = Some (getName a) \<longrightarrow> \<not> isAvailable e a) \<longrightarrow>
        determineActiveProvider e preferred ps = Inr (find (isAvailable e) ps)) \<and>
    (\<forall>i < length ps. isAvailable e (ps ! i) \<and> (\<forall>j < i. \<not> isAvailable e (ps ! j)) \<longrightarrow>
        find (isAvailable e) ps = Some (ps ! i)) \<and>
    ((\<forall>a \<in> set ps. \<not> isAvailable e a) \<longrightarrow> find (isAvailable e) ps = None) \<and>
    loadProviders dir = rev (remdups (rev (loadable dir)))"
proof (intro conjI ballI allI impI)
  fix a assume "a \<in> set ps" and "preferred = Some (getName a) \<and> isAvailable e a"
  then show "determineActiveProvider e preferred ps = Inr (Some a)"
    using getName_truthy [of a]
    by (simp add: determineActiveProvider_def getProperty_def find_getName orDefault_def truthy_def
        del: isAvailable.simps)
next
  assume none: "\<forall>a \<in> set ps. preferred = Some (getName a) \<longrightarrow> \<not> isAvailable e a"
  show "determineActiveProvider e preferred ps = Inr (find (isAvailable e) ps)"
  proof (cases "truthy preferred")
    case False
    then show ?thesis by (simp add: determineActiveProvider_def)
  next
    case True
    then obtain key where key: "preferred = Some key" "key \<noteq> []"
      by (auto simp: truthy_def split: option.splits)
    show ?thesis
    proof (cases "find (\<lambda>a. getName a = key) ps")
      case None
      with key assms show ?thesis
        by (simp add: determineActiveProvider_def getProperty_def orDefault_def truthy_def)
    next
      case (Some a)
      then have "a \<in> set ps" "getName a = key"
        by (auto simp: find_Some_iff)
      with none key have "\<not> isAvailable e a" by auto
      with Some key show ?thesis
        by (simp add: determineActiveProvider_def getProperty_def orDefault_def truthy_def
            del: isAvailable.simps)
    qed
  qed
next
  fix i assume "i < length ps" and "isAvailable e (ps ! i) \<and> (\<forall>j < i. \<not> isAvailable e (ps ! j))"
  then show "find (isAvailable e) ps = Some (ps ! i)"
    by (auto simp: find_Some_iff)
next
  assume "\<forall>a \<in> set ps. \<not> isAvailable e a"
  then show "find (isAvailable e) ps = None"
    by (simp add: find_None_iff)
next
  show "loadProviders dir = rev (remdups (rev (loadable dir)))"
    by (rule loadProviders_first_occurrences)
qed


theorem resolution_follows_load_order_witness:
  "orDefault (Some ''openai'') [] \<notin> set objectPrototypeKeys \<and>
   OpenAI \<in> set (loadProviders providerFiles) \<and> isAvailable localAndHosted OpenAI \<and>
   determineActiveProvider localAndHosted (Some ''openai'') (loadProviders providerFiles)
     = Inr (Some OpenAI)"
proof -
  have key: "orDefault (Some ''openai'') [] \<notin> set objectPrototypeKeys"
    by code_simp
  have loaded: "OpenAI \<in> set (loadProviders providerFiles)"
    by code_simp
  have available: "isAvailable localAndHosted OpenAI"
    by code_simp
  note first = resolution_follows_load_order
    [OF key, of "loadProviders providerFiles" localAndHosted providerFiles, THEN conjunct1]
  from bspec [OF first loaded] available
  have "determineActiveProvider localAndHosted (Some ''openai'') (loadProviders providerFiles)
     = Inr (Some OpenAI)"
    by (simp del: isAvailable.simps)
  with key loaded available show ?thesis by blast
qed


section \<open>The dummy provider\<close>

text \<open>
  With no loaded provider available and a preferred name that is not an inherited property,
  the constructor finds no active provider and leaves the manager unavailable.
\<close>

lemma no_provider_manager:
  assumes "orDefault preferred [] \<notin> set objectPrototypeKeys"
    and "\<forall>a \<in> set (loadProviders dir). \<not> isAvailable e a"
  shows "newProviderManager e preferred dir
     = Inr \<lparr>providers = loadProviders dir, activeProvider = None, pm_isAvailable = False\<rparr>"
proof -
  let ?ps = "loadProviders dir"
  have none: "find (isAvailable e) ?ps = None"
    using assms(2) by (simp add: find_None_iff)
  have "determineActiveProvider e preferred ?ps = Inr None"
  proof (cases "getProperty ?ps (orDefault preferred [])")
    case (Own a)
    then have "a \<in> set ?ps"
      by (auto simp: getProperty_def find_Some_iff split: option.splits if_splits)
    with assms(2) have "\<not> isAvailable e a" by blast
    with Own none show ?thesis
      by (simp add: determineActiveProvider_def Let_def del: isAvailable.simps)
  next
    case Inherited
    with assms(1) show ?thesis
      by (simp add: getProperty_def split: option.splits if_splits)
  next
    case Missing
    with none show ?thesis
      by (simp add: determineActiveProvider_def Let_def del: isAvailable.simps)
  qed
  then show ?thesis by (simp add: newProviderManager_def Let_def)
qed

text \<open>
  Claim C3, as the specification states it, does not hold: with no provider configured,
  \<^verbatim>\<open>getProvider()\<close> returns the dummy object, and the dummy's
  \<^verbatim>\<open>generateCompletion\<close> throws.
\<close>

theorem dummy_completion_throws_counterexample:
  "map_sum id getProvider (newProviderManager (configured []) None providerFiles) = Inr Dummy \<and>
   provider_generateCompletion (configured []) helloVendor Dummy userHi noOptions emptyTrace
     = Inl (Error ''No AI provider configured.'')"
  by code_simp

text \<open>
  Claim C3, amended. Let none of the loaded providers be available, and let
  \<^verbatim>\<open>AI_PROVIDER\<close> not name a property that every object inherits (such as
  \<^verbatim>\<open>constructor\<close> or \<^verbatim>\<open>toString\<close>). Then the constructor of the manager succeeds and
  \<^verbatim>\<open>getProvider()\<close> returns the dummy object. Called on the object so returned, the
  model recommendation, the connection test and the capability lookup return an
  unavailability result and do not throw: the recommendation \<^verbatim>\<open>rule-based\<close>, the test
  result with \<^verbatim>\<open>success: false\<close>, and the empty capability object. The completion
  throws the error \<^verbatim>\<open>No AI provider configured.\<close>
\<close>

theorem sentinel_provider_operations:
  assumes "orDefault preferred [] \<notin> set objectPrototypeKeys"
    and "\<forall>a \<in> set (loadProviders dir). \<not> isAvailable e a"
  shows
   "newProviderManager e preferred dir
      = Inr \<lparr>providers = loadProviders dir, activeProvider = None, pm_isAvailable = False\<rparr> \<and>
    (let sentinel =
           getProvider \<lparr>providers = loadProviders dir, activeProvider = None, pm_isAvailable = False\<rparr>
     in sentinel = Dummy \<and>
        provider_getModelRecommendation e sentinel d
          = Inr \<lparr>rec_model = ''rule-based'', reason = ''No AI provider configured.''\<rparr> \<and>
        provider_testConnection e probe sentinel
          = Inr \<lparr>success = False, test_error = Some ''No AI provider configured.''\<rparr> \<and>
        provider_getCapabilities e sentinel modelName = Inr [] \<and>
        provider_generateCompletion e v sentinel messages opts tr
          = Inl (Error ''No AI provider configured.''))"
  by (simp add: no_provider_manager [OF assms] getProvider_def dummy_getModelRecommendation_def
      dummy_testConnection_def dummy_getCapabilities_def dummy_generateCompletion_def)

theorem sentinel_provider_operations_witness:
  "orDefault (Some ''openai'') [] \<notin> set objectPrototypeKeys \<and>
   find (isAvailable (configured [])) (loadProviders providerFiles) = None \<and>
   newProviderManager (configured []) (Some ''openai'') providerFiles
     = Inr \<lparr>providers = [Anthropic, Azure, Google, HuggingFace, LMStudio, Ollama, OpenAI, Vertex],
            activeProvider = None, pm_isAvailable = False\<rparr> \<and>
   provider_testConnection (configured []) (\<lambda>a. \<lparr>success = True, test_error = None\<rparr>)
     (getProvider \<lparr>providers = [Anthropic, Azure, Google, HuggingFace, LMStudio, Ollama, OpenAI, Vertex],
            activeProvider = None, pm_isAvailable = False\<rparr>)
     = Inr \<lparr>success = False, test_error = Some ''No AI provider configured.''\<rparr>"
proof -
  have key: "orDefault (Some ''openai'') [] \<notin> set objectPrototypeKeys"
    by code_simp
  have none: "\<forall>a \<in> set (loadProviders providerFiles). \<not> isAvailable (configured []) a"
    by code_simp
  have found: "find (isAvailable (configured [])) (loadProviders providerFiles) = None"
    by code_simp
  have loaded: "loadProviders providerFiles
      = [Anthropic, Azure, Google, HuggingFace, LMStudio, Ollama, OpenAI, Vertex]"
    by code_simp
  let ?m = "\<lparr>providers = loadProviders providerFiles, activeProvider = None, pm_isAvailable = False\<rparr>"
  from sentinel_provider_operations
      [OF key none, where probe = "\<lambda>a. \<lparr>success = True, test_error = None\<rparr>"]
  have "newProviderManager (configured []) (Some ''openai'') providerFiles = Inr ?m"
    and "provider_testConnection (configured []) (\<lambda>a. \<lparr>success = True, test_error = None\<rparr>)
           (getProvider ?m)
         = Inr \<lparr>success = False, test_error = Some ''No AI provider configured.''\<rparr>"
    unfolding Let_def by blast+
  with key found show ?thesis
    unfolding loaded by (intro conjI)
qed

text \<open>
  Claim C4, as the specification states it, does not hold. There is no error kind
  \<^verbatim>\<open>NoProviderAvailable\<close>: with no provider configured the completion entry point
  throws a plain \<^verbatim>\<open>Error\<close>, the class of the not-configured error of a provider, and
  only its message tells the two apart. And it can fail with an unrelated error: when
  \<^verbatim>\<open>AI_PROVIDER\<close> is \<^verbatim>\<open>toString\<close>, the constructor of the manager throws a
  \<^verbatim>\<open>TypeError\<close>.
\<close>

theorem no_provider_error_kind_counterexample:
  "managedCompletion (configured []) None providerFiles helloVendor userHi noOptions emptyTrace
     = Inl (Error ''No AI provider configured.'') \<and>
   fst (generateCompletion (configured []) helloVendor OpenAI userHi noOptions emptyTrace)
     = Rejected (Error ''OpenAI provider is not configured.'') \<and>
   managedCompletion (configured []) (Some ''toString'') providerFiles helloVendor userHi noOptions
       emptyTrace
     = Inl (TypeError ''this.providers[preferredProvider].isAvailable is not a function'')"
  by code_simp

text \<open>
  Claim C4, amended. Let none of the loaded providers be available, and let
  \<^verbatim>\<open>AI_PROVIDER\<close> not name a property that every object inherits. Then a call of the
  completion entry point fails, for every vendor, message list, options and state, with
  the error \<^verbatim>\<open>No AI provider configured.\<close> and with no other error. The error is a
  plain \<^verbatim>\<open>Error\<close>, as the not-configured error of every provider class is; its message
  differs from the not-configured message of every provider class.
\<close>

theorem managed_completion_without_provider:
  assumes "orDefault preferred [] \<notin> set objectPrototypeKeys"
    and "\<forall>a \<in> set (loadProviders dir). \<not> isAvailable e a"
  shows "managedCompletion e preferred dir v messages opts tr
      = Inl (Error ''No AI provider configured.'') \<and>
    errorName (Error ''No AI provider configured.'') = errorName (Error (notConfigured a)) \<and>
    errorMessage (Error ''No AI provider configured.'') \<noteq> errorMessage (Error (notConfigured a))"
  by (cases a)
     (simp_all add: managedCompletion_def no_provider_manager [OF assms] getProvider_def
        dummy_generateCompletion_def)

theorem managed_completion_without_provider_witness:
  "orDefault None [] \<notin> set objectPrototypeKeys \<and>
   find (isAvailable (configured [])) (loadProviders providerFiles) = None \<and>
   managedCompletion (configured []) None providerFiles helloVendor userHi noOptions emptyTrace
     = Inl (Error ''No AI provider configured.'')"
proof -
  have key: "orDefault None [] \<notin> set objectPrototypeKeys"
    by code_simp
  have none: "\<forall>a \<in> set (loadProviders providerFiles). \<not> isAvailable (configured []) a"
    by code_simp
  have found: "find (isAvailable (configured [])) (loadProviders providerFiles) = None"
    by code_simp
  from managed_completion_without_provider [OF key none, of helloVendor userHi noOptions emptyTrace OpenAI]
    key found
  show ?thesis by simp
qed

section \<open>Capability lookup\<close>

lemma seq_simps [simp]: "seq [] c = c" "seq (f # fs) c = seq fs (f c)"
  by (simp_all add: seq_def)

lemma applyIf_simps [simp]: "applyIf True fs c = seq fs c" "applyIf False fs c = c"
  by (simp_all add: applyIf_def)

lemmas getCapabilities_defs =
  openai_getCapabilities_def anthropic_getCapabilities_def ollama_getCapabilities_def
  azure_getCapabilities_def vertex_getCapabilities_def google_getCapabilities_def
  lmstudio_getCapabilities_def huggingface_getCapabilities_def

lemma getCapabilities_unmatched:
  "modelName \<noteq> [] \<Longrightarrow> \<not> ruleMatches a modelName \<Longrightarrow>
     getCapabilities e a modelName = Inr (baseCapabilities a)"
  by (cases a)
     (simp_all add: getCapabilities_defs baseCapabilities_def orDefault_def orElse_def truthy_def)

lemma getCapabilities_returns:
  "a = Azure \<longrightarrow> modelName \<noteq> [] \<or> cfg e ''AZURE_OPENAI_DEPLOYMENT_NAME'' \<noteq> None \<Longrightarrow>
     \<exists>c. getCapabilities e a modelName = Inr c"
  by (cases a) (auto simp: azure_getCapabilities_def orElse_def truthy_def split: option.splits)

lemma base_flags:
  "allFalse (baseCapabilities a) = (a \<noteq> Ollama \<and> a \<noteq> LMStudio \<and> a \<noteq> Azure)"
  "filter snd (baseCapabilities a) =
     (if a = Ollama \<or> a = LMStudio then [(''local'', True)]
      else if a = Azure then [(''content_filtering'', True), (''on_your_data'', True)]
      else [])"
  by (cases a; simp add: baseCapabilities_def allFalse_def openai_base_def anthropic_base_def
      ollama_base_def azure_base_def gemini_base_def lmstudio_base_def huggingface_base_def)+

text \<open>
  Claim C9, as the specification states it, does not hold: for the model name
  \<^verbatim>\<open>phi3\<close>, which no rule of the Ollama provider matches, the lookup returns the base
  object of that provider, in which \<^verbatim>\<open>local\<close> is true.
\<close>

theorem ollama_base_not_all_false_counterexample:
  "\<not> ruleMatches Ollama ''phi3'' \<and>
   getCapabilities (configured []) Ollama ''phi3''
     = Inr [(''vision'', False), (''tool_use'', False), (''json_mode'', False),
            (''reasoning'', False), (''local'', True)] \<and>
   \<not> allFalse [(''vision'', False), (''tool_use'', False), (''json_mode'', False),
            (''reasoning'', False), (''local'', True)]"
  by code_simp

text \<open>
  The Azure provider reads \<^verbatim>\<open>modelName || this.config.AZURE_OPENAI_DEPLOYMENT_NAME\<close>
  with no literal at the end. A configured provider without a deployment name throws on
  the empty model name, where every other provider falls back to a literal.
\<close>

lemma azure_lookup_without_deployment:
  "isAvailable azureOnly Azure \<and>
   getCapabilities azureOnly Azure ''''
     = Inl (TypeError ''Cannot read properties of undefined (reading 'includes')'')"
  by code_simp

text \<open>
  Claim C9, amended. For every provider and every model name the lookup returns a
  capability object and does not fail (for Azure: when the name is not empty or a
  deployment name is configured). When the name is not empty and none of the provider's
  substring rules matches it, the result is the provider's base object. The base object
  has every flag false for OpenAI, Anthropic, Vertex, Google and Hugging Face; its only
  true flag is \<^verbatim>\<open>local\<close> for Ollama and LM Studio, and its only true flags are
  \<^verbatim>\<open>content_filtering\<close> and \<^verbatim>\<open>on_your_data\<close> for Azure.
\<close>

theorem capability_lookup_total:
  assumes "a = Azure \<longrightarrow> modelName \<noteq> [] \<or> cfg e ''AZURE_OPENAI_DEPLOYMENT_NAME'' \<noteq> None"
  shows "(\<exists>c. getCapabilities e a modelName = Inr c) \<and>
    (modelName \<noteq> [] \<and> \<not> ruleMatches a modelName \<longrightarrow>
       getCapabilities e a modelName = Inr (baseCapabilities a)) \<and>
    allFalse (baseCapabilities a) = (a \<noteq> Ollama \<and> a \<noteq> LMStudio \<and> a \<noteq> Azure) \<and>
    filter snd (baseCapabilities a) =
      (if a = Ollama \<or> a = LMStudio then [(''local'', True)]
       else if a = Azure then [(''content_filtering'', True), (''on_your_data'', True)]
       else [])"
  using getCapabilities_returns [OF assms] getCapabilities_unmatched [of modelName a e] base_flags [of a]
  by blast

theorem capability_lookup_total_witness:
  "getCapabilities azureOnly Azure ''my-deployment''
     = Inr [(''vision'', False), (''tool_use'', False), (''json_mode'', False),
            (''reasoning'', False), (''large_context'', False),
            (''content_filtering'', True), (''on_your_data'', True)]"
proof -
  have "\<not> ruleMatches Azure ''my-deployment''" by code_simp
  with capability_lookup_total [of Azure "''my-deployment''" azureOnly] show ?thesis
    by (simp add: baseCapabilities_def azure_base_def)
qed




section \<open>Streaming\<close>

lemma vertex_generate_response:
  "vertex_generate e v messages opts inst tr = (Inr res, tr') \<Longrightarrow>
     content res \<noteq> None \<and> model res = Some (vertex_modelName e opts) \<and> stream res = None"
  by (auto simp: vertex_generate_def Let_def split: sum.splits prod.splits option.splits if_splits)

lemma vertex_try_response:
  "vertex_try e v messages opts tr = (Inr res, tr') \<Longrightarrow>
     content res \<noteq> None \<and> model res = Some (vertex_modelName e opts) \<and> stream res = None"
  by (auto simp: vertex_try_def split: sum.splits prod.splits dest: vertex_generate_response)

lemma afterTimer_Resolved: "fst (afterTimer x) = Resolved r \<Longrightarrow> fst x = Resolved r"
  by (cases x rule: afterTimer.cases) simp_all

lemma vertex_resolved_content:
  "fst (vertex_generateCompletion e v messages opts tr) = Resolved r \<Longrightarrow> content r \<noteq> None"
proof (induction "retryBudget opts" arbitrary: opts tr rule: less_induct)
  case less
  show ?case
  proof (cases rule: vertex_cases [where e = e and v = v and messages = messages and opts = opts and tr = tr])
    case unavailable
    with less.prems show ?thesis by (simp add: vertex_unavailable del: isAvailable.simps)
  next
    case no_client
    with less.prems show ?thesis by (simp add: vertex_no_client del: isAvailable.simps)
  next
    case (success res tr')
    with less.prems vertex_try_response [OF success(3)] show ?thesis
      by (simp add: vertex_success del: isAvailable.simps)
  next
    case (retry msg tr')
    from less.prems have "fst (vertex_generateCompletion e v messages
           (opts\<lparr>opt_retryCount := Some (vertex_retryCount opts + 1)\<rparr>)
           (tr'\<lparr>sleeps := sleeps tr' @ [2 ^ vertex_retryCount opts * 1000]\<rparr>)) = Resolved r"
      unfolding vertex_retry [OF retry] by (rule afterTimer_Resolved)
    then show ?thesis
      by (rule less.hyps [OF retryBudget_retry [OF retry(5)]])
  next
    case (fallback msg tr')
    from less.prems show ?thesis
      unfolding vertex_fallback [OF fallback]
      by (rule less.hyps [OF retryBudget_fallback [OF fallback(6)]])
  next
    case (rethrow msg tr')
    with less.prems show ?thesis by (simp add: vertex_rethrow del: isAvailable.simps)
  qed
qed

lemma google_resolved_content:
  "fst (google_generateCompletion e v messages opts tr) = Resolved r \<Longrightarrow> content r \<noteq> None"
  by (auto simp: google_generateCompletion_def Let_def
      split: if_splits sum.splits prod.splits option.splits simp del: isAvailable.simps)

lemma rawStream_resolved:
  "fst (rawStream v p tr) = Resolved r \<Longrightarrow> content r = None \<and> stream r \<noteq> None"
  by (auto simp: rawStream_def split: sum.splits)

lemma raw_stream_adapters:
  assumes "isAvailable e a" and "opt_stream opts"
    and "a \<noteq> Vertex" and "a \<noteq> Google"
    and "\<not> (a = HuggingFace \<and> huggingface_hfEndpoint e \<and> opt_useEndpoint opts)"
    and "fst (generateCompletion e v a messages opts tr) = Resolved r"
  shows "content r = None \<and> stream r \<noteq> None"
  using assms
  by (cases a)
     (auto simp: simple_completion_defs generateWithMcp_def Let_def
        dest!: rawStream_resolved split: if_splits simp del: isAvailable.simps)

lemma raw_stream_result:
  assumes "isAvailable e a" and "opt_stream opts"
    and "a \<noteq> Vertex" and "a \<noteq> Google"
    and "\<not> (a = HuggingFace \<and> (huggingface_hfEndpoint e \<and> opt_useEndpoint opts \<or>
              huggingface_mcpClient e \<and> opt_useMcp opts))"
    and "chatStream v (length (calls tr)) ((completionParams e v a messages opts tr)\<lparr>p_stream := True\<rparr>)
           = Inr s"
  shows "generateCompletion e v a messages opts tr
     = (Resolved \<lparr>content = None, model = p_model (completionParams e v a messages opts tr),
                  stream = Some s\<rparr>,
        called ((completionParams e v a messages opts tr)\<lparr>p_stream := True\<rparr>) tr)"
  using assms
  by (cases a)
     (auto simp: simple_completion_defs rawStream_def Let_def simp del: isAvailable.simps)

text \<open>
  The first attempt of a Vertex completion makes its request with the instance and in the
  state that \<open>requestInstance\<close> gives.
\<close>

lemma vertex_first_attempt:
  assumes "client tr \<or> clientInit v"
  shows "vertex_try e v messages opts (vertex_ready e v tr)
       = vertex_generate e v messages opts (fst (requestInstance e v opts tr))
           (snd (requestInstance e v opts tr))"
    and "forgetCache (snd (requestInstance e v opts tr)) = forgetCache (vertex_ready e v tr)"
proof -
  from assms have "client (vertex_ready e v tr)" by simp
  then obtain inst tr1 where
    "getModelInstance e (vertex_modelName e opts) opts (vertex_ready e v tr) = Inr (inst, tr1)"
    "forgetCache tr1 = forgetCache (vertex_ready e v tr)"
    "vertex_try e v messages opts (vertex_ready e v tr) = vertex_generate e v messages opts inst tr1"
    by (rule vertex_try_client [where e = e and opts = opts and v = v and messages = messages]) blast
  then show "vertex_try e v messages opts (vertex_ready e v tr)
       = vertex_generate e v messages opts (fst (requestInstance e v opts tr))
           (snd (requestInstance e v opts tr))"
    and "forgetCache (snd (requestInstance e v opts tr)) = forgetCache (vertex_ready e v tr)"
    by (simp_all add: requestInstance_def)
qed

lemma accumulated_stream_result:
  assumes "isAvailable e a" and "opt_stream opts"
    and "(a = Vertex \<and> (client tr \<or> clientInit v) \<and> opt_onUpdate opts) \<or>
         (a = Google \<and> opt_onStreamData opts \<and>
          p_messages (completionParams e v a messages opts tr) \<noteq> [])"
    and "chatStream v (length (calls tr)) ((completionParams e v a messages opts tr)\<lparr>p_stream := True\<rparr>)
           = Inr (chunks, None)"
  shows "generateCompletion e v a messages opts tr
     = (Resolved \<lparr>content = Some (concat chunks),
                  model = p_model (completionParams e v a messages opts tr), stream = None\<rparr>,
        notify (map Chunk chunks @ [Done (if a = Vertex then [] else concat chunks)])
          (called ((completionParams e v a messages opts tr)\<lparr>p_stream := True\<rparr>)
             (requestState e v a opts tr)))"
proof -
  from assms(3) consider (vertex) "a = Vertex" "client tr \<or> clientInit v" "opt_onUpdate opts"
    | (google) "a = Google" "opt_onStreamData opts" "p_messages (google_params e messages opts) \<noteq> []"
    by auto
  then show ?thesis
  proof cases
    case vertex
    let ?inst = "fst (requestInstance e v opts tr)" and ?tr1 = "snd (requestInstance e v opts tr)"
    note first = vertex_first_attempt(1) [OF vertex(2), where e = e and messages = messages and opts = opts]
      vertex_first_attempt(2) [OF vertex(2), where e = e and opts = opts]
    from first(2) have "calls ?tr1 = calls tr" by (simp add: forgetCache_eq)
    with assms vertex have "vertex_generate e v messages opts ?inst ?tr1
        = (Inr \<lparr>content = Some (concat chunks), model = Some (vertex_modelName e opts), stream = None\<rparr>,
           notify (map Chunk chunks @ [Done []])
             (called ((vertex_params e messages opts ?inst)\<lparr>p_stream := True\<rparr>) ?tr1))"
      by (simp add: vertex_generate_def Let_def del: isAvailable.simps)
    with first(1) have "vertex_try e v messages opts (vertex_ready e v tr)
        = (Inr \<lparr>content = Some (concat chunks), model = Some (vertex_modelName e opts), stream = None\<rparr>,
           notify (map Chunk chunks @ [Done []])
             (called ((vertex_params e messages opts ?inst)\<lparr>p_stream := True\<rparr>) ?tr1))"
      by simp
    from vertex_success [OF _ vertex(2) this] assms(1) vertex show ?thesis
      by (simp add: vertex_params_def del: isAvailable.simps)
  next
    case google
    with assms show ?thesis
      by (simp add: google_generateCompletion_def Let_def del: isAvailable.simps)
  qed
qed

text \<open>
  Claim C1, as the specification states it, does not hold: the OpenAI provider answers a
  request with \<^verbatim>\<open>stream: true\<close> with the object \<^verbatim>\<open>{ stream, model }\<close>, which has no
  \<^verbatim>\<open>content\<close> field.
\<close>

theorem openai_stream_has_no_content_counterexample:
  "fst (generateCompletion openaiOnly helloVendor OpenAI userHi (noOptions\<lparr>opt_stream := True\<rparr>) emptyTrace)
     = Resolved \<lparr>content = None, model = Some ''gpt-4o'', stream = Some ([''Hel'', ''lo''], None)\<rparr>"
  by code_simp

text \<open>
  Claim C1, amended. Let the provider be available and the request have
  \<^verbatim>\<open>stream: true\<close>. For OpenAI, Anthropic, Ollama, Azure, LM Studio and Hugging Face
  (unless its hosted endpoint is used) every fulfilled completion is an object with the
  vendor's stream and no \<^verbatim>\<open>content\<close> field, and on their direct path the completion is
  fulfilled with \<^verbatim>\<open>{ stream, model }\<close> as soon as the vendor returns the stream. For
  Vertex with a client and an \<^verbatim>\<open>onUpdate\<close> callback, and for Google with an
  \<^verbatim>\<open>onStreamData\<close> callback and a non-system message, a vendor stream that ends without
  error yields a response whose content is the concatenation of the fragments, each
  fragment having been passed to the callback in order before the final notification.
  Every fulfilled completion of Vertex or Google has a content string.
\<close>

theorem streaming_response:
  assumes "isAvailable e a" and "opt_stream opts"
  shows
   "(a \<noteq> Vertex \<and> a \<noteq> Google \<and>
     \<not> (a = HuggingFace \<and> huggingface_hfEndpoint e \<and> opt_useEndpoint opts) \<longrightarrow>
       (\<forall>r. fst (generateCompletion e v a messages opts tr) = Resolved r \<longrightarrow>
            content r = None \<and> stream r \<noteq> None)) \<and>
    (a \<noteq> Vertex \<and> a \<noteq> Google \<and>
     \<not> (a = HuggingFace \<and> (huggingface_hfEndpoint e \<and> opt_useEndpoint opts \<or>
            huggingface_mcpClient e \<and> opt_useMcp opts)) \<longrightarrow>
       (\<forall>s. chatStream v (length (calls tr))
               ((completionParams e v a messages opts tr)\<lparr>p_stream := True\<rparr>) = Inr s \<longrightarrow>
            generateCompletion e v a messages opts tr
              = (Resolved \<lparr>content = None, model = p_model (completionParams e v a messages opts tr),
                           stream = Some s\<rparr>,
                 called ((completionParams e v a messages opts tr)\<lparr>p_stream := True\<rparr>) tr))) \<and>
    ((a = Vertex \<and> (client tr \<or> clientInit v) \<and> opt_onUpdate opts) \<or>
     (a = Google \<and> opt_onStreamData opts \<and>
      p_messages (completionParams e v a messages opts tr) \<noteq> []) \<longrightarrow>
       (\<forall>chunks. chatStream v (length (calls tr))
                    ((completionParams e v a messages opts tr)\<lparr>p_stream := True\<rparr>)
                    = Inr (chunks, None) \<longrightarrow>
            generateCompletion e v a messages opts tr
              = (Resolved \<lparr>content = Some (concat chunks),
                           model = p_model (completionParams e v a messages opts tr), stream = None\<rparr>,
                 notify (map Chunk chunks @ [Done (if a = Vertex then [] else concat chunks)])
                   (called ((completionParams e v a messages opts tr)\<lparr>p_stream := True\<rparr>)
                      (requestState e v a opts tr))))) \<and>
    (a = Vertex \<or> a = Google \<longrightarrow>
       (\<forall>r. fst (generateCompletion e v a messages opts tr) = Resolved r \<longrightarrow> content r \<noteq> None))"
proof (intro conjI impI allI)
  fix r
  assume "a \<noteq> Vertex \<and> a \<noteq> Google \<and>
     \<not> (a = HuggingFace \<and> huggingface_hfEndpoint e \<and> opt_useEndpoint opts)"
    and "fst (generateCompletion e v a messages opts tr) = Resolved r"
  with assms raw_stream_adapters [of e a opts v messages tr r]
  show "content r = None" and "stream r \<noteq> None" by blast+
next
  fix s
  assume "a \<noteq> Vertex \<and> a \<noteq> Google \<and>
     \<not> (a = HuggingFace \<and> (huggingface_hfEndpoint e \<and> opt_useEndpoint opts \<or>
            huggingface_mcpClient e \<and> opt_useMcp opts))"
    and "chatStream v (length (calls tr)) ((completionParams e v a messages opts tr)\<lparr>p_stream := True\<rparr>)
           = Inr s"
  with assms raw_stream_result [of e a opts v tr messages s]
  show "generateCompletion e v a messages opts tr
      = (Resolved \<lparr>content = None, model = p_model (completionParams e v a messages opts tr),
                   stream = Some s\<rparr>,
         called ((completionParams e v a messages opts tr)\<lparr>p_stream := True\<rparr>) tr)"
    by blast
next
  fix chunks
  assume "(a = Vertex \<and> (client tr \<or> clientInit v) \<and> opt_onUpdate opts) \<or>
     (a = Google \<and> opt_onStreamData opts \<and> p_messages (completionParams e v a messages opts tr) \<noteq> [])"
    and "chatStream v (length (calls tr)) ((completionParams e v a messages opts tr)\<lparr>p_stream := True\<rparr>)
          = Inr (chunks, None)"
  with assms show "generateCompletion e v a messages opts tr
      = (Resolved \<lparr>content = Some (concat chunks),
                   model = p_model (completionParams e v a messages opts tr), stream = None\<rparr>,
         notify (map Chunk chunks @ [Done (if a = Vertex then [] else concat chunks)])
           (called ((completionParams e v a messages opts tr)\<lparr>p_stream := True\<rparr>)
              (requestState e v a opts tr)))"
    by (rule accumulated_stream_result)
next
  fix r
  assume "a = Vertex \<or> a = Google" and "fst (generateCompletion e v a messages opts tr) = Resolved r"
  then show "content r \<noteq> None"
    using vertex_resolved_content [of e v messages opts tr r]
      google_resolved_content [of e v messages opts tr r] by auto
qed

theorem streaming_response_witness:
  "isAvailable vertexOnly Vertex \<and>
   opt_stream (noOptions\<lparr>opt_stream := True, opt_onUpdate := True\<rparr>) \<and>
   generateCompletion vertexOnly helloVendor Vertex userHi
       (noOptions\<lparr>opt_stream := True, opt_onUpdate := True\<rparr>) emptyTrace
     = (Resolved \<lparr>content = Some ''Hello'', model = Some ''gemini-2.5-flash'', stream = None\<rparr>,
        \<lparr>calls = [(vertex_params vertexOnly userHi (noOptions\<lparr>opt_stream := True, opt_onUpdate := True\<rparr>)
                     (vertex_generationConfig vertexOnly noOptions))
                    \<lparr>p_stream := True\<rparr>],
         sleeps = [], updates = [Chunk ''Hel'', Chunk ''lo'', Done []], unhandled = [],
         client = True,
         modelCache =
           [((''gemini-2.5-flash'', noOptions), vertex_generationConfig vertexOnly noOptions),
            ((''gemini-2.5-flash'', noOptions\<lparr>opt_stream := True\<rparr>),
             vertex_generationConfig vertexOnly noOptions)]\<rparr>)"
proof -
  let ?opts = "noOptions\<lparr>opt_stream := True, opt_onUpdate := True\<rparr>"
  have available: "isAvailable vertexOnly Vertex"
    by code_simp
  have streaming: "opt_stream ?opts"
    by simp
  have vendor: "client emptyTrace \<or> clientInit helloVendor" "opt_onUpdate ?opts"
    "chatStream helloVendor (length (calls emptyTrace))
       ((completionParams vertexOnly helloVendor Vertex userHi ?opts emptyTrace)\<lparr>p_stream := True\<rparr>)
       = Inr ([''Hel'', ''lo''], None)"
    by (simp_all add: helloVendor_def)
  have request: "completionParams vertexOnly helloVendor Vertex userHi ?opts emptyTrace
      = vertex_params vertexOnly userHi ?opts (vertex_generationConfig vertexOnly noOptions)"
    "p_model (vertex_params vertexOnly userHi ?opts (vertex_generationConfig vertexOnly noOptions))
      = Some ''gemini-2.5-flash''"
    "requestState vertexOnly helloVendor Vertex ?opts emptyTrace
      = \<lparr>calls = [], sleeps = [], updates = [], unhandled = [], client = True,
         modelCache =
           [((''gemini-2.5-flash'', noOptions), vertex_generationConfig vertexOnly noOptions),
            ((''gemini-2.5-flash'', noOptions\<lparr>opt_stream := True\<rparr>),
             vertex_generationConfig vertexOnly noOptions)]\<rparr>"
    by code_simp+
  from streaming_response [OF available streaming, of helloVendor userHi emptyTrace] vendor
  have "generateCompletion vertexOnly helloVendor Vertex userHi ?opts emptyTrace
      = (Resolved \<lparr>content = Some (concat [''Hel'', ''lo'']),
                   model = p_model (completionParams vertexOnly helloVendor Vertex userHi ?opts emptyTrace),
                   stream = None\<rparr>,
         notify (map Chunk [''Hel'', ''lo''] @ [Done []])
           (called ((completionParams vertexOnly helloVendor Vertex userHi ?opts emptyTrace)\<lparr>p_stream := True\<rparr>)
              (requestState vertexOnly helloVendor Vertex ?opts emptyTrace)))"
    by (simp del: isAvailable.simps generateCompletion.simps completionParams.simps requestState.simps)
  with available streaming show ?thesis
    unfolding request
    by (simp add: notify_def called_def del: isAvailable.simps)
qed


section \<open>Retries and fallback\<close>

lemma vertex_modelName_update [simp]:
  "vertex_modelName e (opts\<lparr>opt_retryCount := n\<rparr>) = vertex_modelName e opts"
  "vertex_modelName e (opts\<lparr>opt_triedFallback := b\<rparr>) = vertex_modelName e opts"
  by (simp_all add: vertex_modelName_def)

lemma vertex_fallback_name:
  "vertex_modelName e (opts\<lparr>opt_model := Some (hd (vertex_getSuggestedModels m))\<rparr>)
     = hd (vertex_getSuggestedModels m)"
  by (simp add: vertex_modelName_def vertex_getSuggestedModels_def orDefault_def)

text \<open>What one attempt adds to the state in which the completion was called.\<close>

lemma vertex_attempt:
  assumes "client tr \<or> clientInit v"
    and "vertex_try e v messages opts (vertex_ready e v tr) = (outcome, tr')"
  shows "client tr'" and "sleeps tr' = sleeps tr"
    and "\<exists>p. calls tr' = calls tr @ [p] \<and> p_model p = Some (vertex_modelName e opts)"
proof -
  from assms(1) have ready: "client (vertex_ready e v tr)" by simp
  from vertex_try_state(1,2) [OF ready assms(2)] show "client tr'" "sleeps tr' = sleeps tr"
    by simp_all
  from vertex_try_state(5) [OF ready assms(2)]
  show "\<exists>p. calls tr' = calls tr @ [p] \<and> p_model p = Some (vertex_modelName e opts)"
    by (auto simp: vertex_params_def)
qed

lemma vertex_retries_bounded:
  "length (calls (snd (vertex_generateCompletion e v messages opts tr)))
     \<le> length (calls tr) + 1 + retryBudget opts \<and>
   length (sleeps (snd (vertex_generateCompletion e v messages opts tr)))
     \<le> length (sleeps tr) + (3 - vertex_retryCount opts) \<and>
   set (sleeps (snd (vertex_generateCompletion e v messages opts tr)))
     \<subseteq> set (sleeps tr) \<union> {1000, 2000, 4000}"
proof (induction "retryBudget opts" arbitrary: opts tr rule: less_induct)
  case less
  show ?case
  proof (cases rule: vertex_cases [where e = e and v = v and messages = messages and opts = opts and tr = tr])
    case unavailable
    then show ?thesis by (auto simp add: vertex_unavailable simp del: isAvailable.simps)
  next
    case no_client
    then show ?thesis by (auto simp add: vertex_no_client simp del: isAvailable.simps)
  next
    case (success res tr')
    with vertex_attempt(2,3) [OF success(2,3)] show ?thesis
      by (auto simp add: vertex_success simp del: isAvailable.simps)
  next
    case (retry msg tr')
    let ?opts = "opts\<lparr>opt_retryCount := Some (vertex_retryCount opts + 1)\<rparr>"
    let ?tr = "tr'\<lparr>sleeps := sleeps tr' @ [2 ^ vertex_retryCount opts * 1000]\<rparr>"
    note IH = less.hyps [OF retryBudget_retry [OF retry(5)], of ?tr]
    have budget: "retryBudget ?opts + 1 = retryBudget opts" "vertex_retryCount ?opts = vertex_retryCount opts + 1"
      using retry(5) by (simp_all add: retryBudget_def vertex_retryCount_def)
    have delay: "(2::nat) ^ vertex_retryCount opts * 1000 \<in> {1000, 2000, 4000}"
    proof -
      from retry(5) consider "vertex_retryCount opts = 0" | "vertex_retryCount opts = 1"
        | "vertex_retryCount opts = 2" by linarith
      then show ?thesis by cases simp_all
    qed
    from vertex_attempt(2,3) [OF retry(2,3)]
    have tr': "length (calls tr') = length (calls tr) + 1" "sleeps tr' = sleeps tr"
      by auto
    from IH budget delay tr' retry(5) show ?thesis
      unfolding vertex_retry [OF retry] by auto
  next
    case (fallback msg tr')
    let ?opts = "opts\<lparr>opt_model := Some (hd (vertex_getSuggestedModels (vertex_modelName e opts))),
                       opt_triedFallback := True\<rparr>"
    note IH = less.hyps [OF retryBudget_fallback [OF fallback(6)], of _ tr']
    have budget: "retryBudget ?opts + 1 = retryBudget opts" "vertex_retryCount ?opts = vertex_retryCount opts"
      using fallback(6) by (simp_all add: retryBudget_def vertex_retryCount_def)
    from vertex_attempt(2,3) [OF fallback(2,3)]
    have tr': "length (calls tr') = length (calls tr) + 1" "sleeps tr' = sleeps tr"
      by auto
    from IH [of "hd (vertex_getSuggestedModels (vertex_modelName e opts))"] budget tr' show ?thesis
      unfolding vertex_fallback [OF fallback] by auto
  next
    case (rethrow msg tr')
    with vertex_attempt(2,3) [OF rethrow(2,3)] show ?thesis
      by (auto simp add: vertex_rethrow simp del: isAvailable.simps)
  qed
qed

lemma vertex_models_used:
  "set (map p_model (calls (snd (vertex_generateCompletion e v messages opts tr))))
     \<subseteq> set (map p_model (calls tr)) \<union>
       (if opt_triedFallback opts then {Some (vertex_modelName e opts)}
        else {Some (vertex_modelName e opts),
              Some (hd (vertex_getSuggestedModels (vertex_modelName e opts)))})"
proof (induction "retryBudget opts" arbitrary: opts tr rule: less_induct)
  case less
  have one: "set (map p_model (calls tr')) = set (map p_model (calls tr)) \<union> {Some (vertex_modelName e opts)}"
    if "client tr \<or> clientInit v"
      and "vertex_try e v messages opts (vertex_ready e v tr) = (outcome, tr')" for outcome tr'
    using vertex_attempt(3) [OF that] by auto
  show ?case
  proof (cases rule: vertex_cases [where e = e and v = v and messages = messages and opts = opts and tr = tr])
    case unavailable
    then show ?thesis by (auto simp add: vertex_unavailable simp del: isAvailable.simps)
  next
    case no_client
    then show ?thesis by (auto simp add: vertex_no_client simp del: isAvailable.simps)
  next
    case (success res tr')
    with one [OF success(2,3)] show ?thesis
      by (auto simp add: vertex_success simp del: isAvailable.simps)
  next
    case (retry msg tr')
    let ?opts = "opts\<lparr>opt_retryCount := Some (vertex_retryCount opts + 1)\<rparr>"
    let ?tr = "tr'\<lparr>sleeps := sleeps tr' @ [2 ^ vertex_retryCount opts * 1000]\<rparr>"
    have IH: "set (map p_model (calls (snd (vertex_generateCompletion e v messages ?opts ?tr))))
        \<subseteq> set (map p_model (calls ?tr)) \<union>
          (if opt_triedFallback opts then {Some (vertex_modelName e opts)}
           else {Some (vertex_modelName e opts),
                 Some (hd (vertex_getSuggestedModels (vertex_modelName e opts)))})"
      using less.hyps [OF retryBudget_retry [OF retry(5)], of ?tr] by (simp cong: if_cong)
    from one [OF retry(2,3)]
    have "set (map p_model (calls ?tr)) = set (map p_model (calls tr)) \<union> {Some (vertex_modelName e opts)}"
      by simp
    with IH show ?thesis
      unfolding vertex_retry [OF retry] afterTimer_trace by (auto split: if_splits)
  next
    case (fallback msg tr')
    let ?fb = "hd (vertex_getSuggestedModels (vertex_modelName e opts))"
    let ?opts = "opts\<lparr>opt_model := Some ?fb, opt_triedFallback := True\<rparr>"
    have IH: "set (map p_model (calls (snd (vertex_generateCompletion e v messages ?opts tr'))))
        \<subseteq> set (map p_model (calls tr')) \<union> {Some ?fb}"
      using less.hyps [OF retryBudget_fallback [OF fallback(6)], of ?fb tr']
      by (simp add: vertex_fallback_name)
    note one [OF fallback(2,3)]
    with IH fallback(6) show ?thesis
      unfolding vertex_fallback [OF fallback] by auto
  next
    case (rethrow msg tr')
    with one [OF rethrow(2,3)] show ?thesis
      by (auto simp add: vertex_rethrow simp del: isAvailable.simps)
  qed
qed

lemma single_vendor_call:
  "a \<noteq> Vertex \<Longrightarrow>
     length (calls (snd (generateCompletion e v a messages opts tr))) \<le> Suc (length (calls tr))"
proof (cases a)
  case Google
  then show ?thesis by (simp add: google_state_calls del: isAvailable.simps)
qed (simp_all add: openai_generateCompletion_def anthropic_generateCompletion_def
      ollama_generateCompletion_def azure_generateCompletion_def lmstudio_generateCompletion_def
      huggingface_generateCompletion_def generateWithMcp_def generateWithEndpoint_def Let_def
      split: sum.split del: isAvailable.simps)

text \<open>
  A provider other than Vertex whose vendor call fails rejects at once: with the vendor's
  error, with a rewrapped error, or, in the Google provider, with the TypeError of its
  broken rate-limit handler.
\<close>

lemma google_failure:
  assumes "isAvailable e Google"
    and "\<forall>p. chat v (length (calls tr)) p = Inl msg \<and> chatStream v (length (calls tr)) p = Inl msg"
  shows "fst (google_generateCompletion e v messages opts tr)
     = Rejected
         (if opt_stream opts \<and> opt_onStreamData opts then
            (if filter (\<lambda>m. role m \<noteq> ''system'') messages = [] then TypeError noLastMessage
             else Error msg)
          else if (case opt_tools opts of None \<Rightarrow> False | Some ts \<Rightarrow> ts \<noteq> []) then
            Error (''Tool calling error: '' @
                   (if filter (\<lambda>m. role m \<noteq> ''system'') messages = [] then noLastMessage else msg))
          else if google_rateLimited msg then TypeError ''this.getRetryDelay is not a function''
          else Error msg)"
proof -
  have contents: "p_messages (google_params e messages opts) = [] \<longleftrightarrow>
      filter (\<lambda>m. role m \<noteq> ''system'') messages = []"
    by (simp add: google_params_def)
  consider (streaming) "opt_stream opts \<and> opt_onStreamData opts"
    | (tools) "\<not> (opt_stream opts \<and> opt_onStreamData opts)"
        "(case opt_tools opts of None \<Rightarrow> False | Some ts \<Rightarrow> ts \<noteq> [])"
    | (plain) "\<not> (opt_stream opts \<and> opt_onStreamData opts)"
        "\<not> (case opt_tools opts of None \<Rightarrow> False | Some ts \<Rightarrow> ts \<noteq> [])"
    by blast
  then show ?thesis
  proof cases
    case streaming
    show ?thesis
      unfolding google_generateCompletion_def Let_def
      by (simp only: assms streaming contents simp_thms if_True if_False sum.case) simp
  next
    case tools
    show ?thesis
      unfolding google_generateCompletion_def Let_def
      by (simp only: assms tools contents simp_thms if_True if_False sum.case) simp
  next
    case plain
    show ?thesis
      unfolding google_generateCompletion_def Let_def
      by (simp only: assms plain contents simp_thms if_True if_False sum.case) simp
  qed
qed

lemma simple_failure:
  assumes "a \<noteq> Vertex" and "isAvailable e a"
    and "\<forall>p. chat v (length (calls tr)) p = Inl msg \<and> chatStream v (length (calls tr)) p = Inl msg \<and>
             predict v (length (calls tr)) p = Inl msg"
  shows "fst (generateCompletion e v a messages opts tr)
     = Rejected
         (case a of
            LMStudio \<Rightarrow> if opt_stream opts then Error msg else lmstudio_error msg
          | Google \<Rightarrow>
              if opt_stream opts \<and> opt_onStreamData opts then
                (if filter (\<lambda>m. role m \<noteq> ''system'') messages = [] then TypeError noLastMessage
                 else Error msg)
              else if (case opt_tools opts of None \<Rightarrow> False | Some ts \<Rightarrow> ts \<noteq> []) then
                Error (''Tool calling error: '' @
                       (if filter (\<lambda>m. role m \<noteq> ''system'') messages = [] then noLastMessage
                        else msg))
              else if google_rateLimited msg then TypeError ''this.getRetryDelay is not a function''
              else Error msg
          | _ \<Rightarrow> Error msg)"
proof (cases a)
  case Google
  from assms(3) have "\<forall>p. chat v (length (calls tr)) p = Inl msg \<and>
      chatStream v (length (calls tr)) p = Inl msg" by blast
  from google_failure [OF _ this, of e messages opts] assms(2) Google show ?thesis
    by (simp del: isAvailable.simps)
next
  case Vertex
  with assms(1) show ?thesis by simp
qed (insert assms, simp_all add: openai_generateCompletion_def anthropic_generateCompletion_def
      ollama_generateCompletion_def azure_generateCompletion_def lmstudio_generateCompletion_def
      huggingface_generateCompletion_def generateWithMcp_def generateWithEndpoint_def Let_def
      plainChat_def rawStream_def del: isAvailable.simps)


text \<open>
  Claim C5 at a concrete input. The Vertex provider is configured and every vendor call
  fails with \<^verbatim>\<open>429 quota exceeded\<close>. The provider calls the vendor four times, waiting
  1000, 2000 and 4000 ms in between, and does not retry the fourth failure. That failure
  is thrown inside the timer callback of the third retry, where nothing handles it, and
  the promise the caller holds is never settled: the error does not reach the caller.
  Each attempt has its own retry count in its options and so its own entry in the model
  cache. The Google provider, on the same failure, calls its undefined
  \<^verbatim>\<open>getRetryDelay\<close> helper and rejects with a TypeError after a single vendor call.
\<close>

theorem vertex_quota_failure_never_settles:
  "vertex_generateCompletion vertexOnly (failingVendor ''429 quota exceeded'') userHi noOptions emptyTrace
     = (Pending,
        \<lparr>calls = replicate 4
           (vertex_params vertexOnly userHi noOptions (vertex_generationConfig vertexOnly noOptions)),
         sleeps = [1000, 2000, 4000], updates = [],
         unhandled = [Error ''429 quota exceeded''],
         client = True,
         modelCache =
           [((''gemini-2.5-flash'', noOptions), vertex_generationConfig vertexOnly noOptions),
            ((''gemini-2.5-flash'', noOptions\<lparr>opt_retryCount := Some 1\<rparr>),
             vertex_generationConfig vertexOnly noOptions),
            ((''gemini-2.5-flash'', noOptions\<lparr>opt_retryCount := Some 2\<rparr>),
             vertex_generationConfig vertexOnly noOptions),
            ((''gemini-2.5-flash'', noOptions\<lparr>opt_retryCount := Some 3\<rparr>),
             vertex_generationConfig vertexOnly noOptions)]\<rparr>) \<and>
   generateCompletion googleOnly (failingVendor ''429 quota exceeded'') Google userHi noOptions emptyTrace
     = (Rejected (TypeError ''this.getRetryDelay is not a function''),
        \<lparr>calls = [google_params googleOnly userHi noOptions],
         sleeps = [], updates = [], unhandled = [], client = False, modelCache = []\<rparr>)"
  by code_simp




end
